theory Spec2Isabelle
  imports Complex_Main "HOL-Library.Sublist"
begin

section \<open>Python values shared by the three modules\<close>

text \<open>
  Every \<^verbatim>\<open>raise\<close>, failed \<^verbatim>\<open>assert\<close> and failing library call of the
  Python sources is a value of \<open>error\<close>; a function that can raise returns
  \<open>error + 'a\<close> with \<open>Inl\<close> for the exception. The string is the exception's message.
\<close>

datatype error =
    Exception string
  | ValueError string
  | AssertionError string
  | NotImplementedError string
  | IndexError string
  | ZeroDivisionError string
  | RuntimeError string
  | UnboundLocalError string

text \<open>
  The command-line namespace \<^verbatim>\<open>args\<close>: only the attributes the three modules
  read. Counts are natural numbers; \<^verbatim>\<open>composing_layer\<close> is used as a list index and
  slice bound, where Python gives negative integers a meaning, so it is an \<open>int\<close>.
\<close>

record args =
  arg_iterations :: int
  arg_lr :: real
  arg_init_type :: string
  arg_composing_layer :: int
  arg_z_number :: nat

text \<open>Python list indexing \<^verbatim>\<open>xs[i]\<close> and the slices \<^verbatim>\<open>xs[:k]\<close>, \<^verbatim>\<open>xs[k:]\<close>.\<close>

definition py_index :: "'a list \<Rightarrow> int \<Rightarrow> error + 'a" where
  "py_index xs i =
     (if 0 \<le> i \<and> i < int (length xs) then Inr (xs ! nat i)
      else if i < 0 \<and> - int (length xs) \<le> i then Inr (xs ! nat (int (length xs) + i))
      else Inl (IndexError ''list index out of range''))"

definition py_slice_to :: "'a list \<Rightarrow> int \<Rightarrow> 'a list" where
  "py_slice_to xs k = (if k < 0 then take (nat (int (length xs) + k)) xs else take (nat k) xs)"

definition py_slice_from :: "'a list \<Rightarrow> int \<Rightarrow> 'a list" where
  "py_slice_from xs k = (if k < 0 then drop (nat (int (length xs) + k)) xs else drop (nat k) xs)"

section \<open>inversion/inversion_methods.py: the factory\<close>

text \<open>\<^verbatim>\<open>optim.SGD\<close> and \<^verbatim>\<open>optim.Adam\<close>, the two optimizer classes the factory passes on.\<close>

datatype optimizer_class = SGD | Adam

record GradientDescent =
  iterations :: int
  lr :: real
  optimizer :: optimizer_class
  init_type :: string

definition GradientDescent_init :: "int \<Rightarrow> real \<Rightarrow> optimizer_class \<Rightarrow> args \<Rightarrow> GradientDescent" where
  "GradientDescent_init its rate opt a =
     \<lparr>iterations = its, lr = rate, optimizer = opt, init_type = arg_init_type a\<rparr>"

text \<open>
  \<^verbatim>\<open>get_inversion\<close> has an \<^verbatim>\<open>if\<close>/\<^verbatim>\<open>elif\<close> and no \<^verbatim>\<open>else\<close>: control falls off the
  end of the function, whose value is then Python's \<^verbatim>\<open>None\<close> (here \<open>Inr None\<close>).
\<close>

definition get_inversion :: "string \<Rightarrow> args \<Rightarrow> error + GradientDescent option" where
  "get_inversion inversion_type a =
     (if inversion_type = ''GD''
        then Inr (Some (GradientDescent_init (arg_iterations a) (arg_lr a) SGD a))
      else if inversion_type = ''Adam''
        then Inr (Some (GradientDescent_init (arg_iterations a) (arg_lr a) Adam a))
      else Inr None)"

section \<open>Derivable_Models/Derivable_Generator.py: the wrappers and their factory\<close>

definition PGGAN_LATENT_1024 :: "(nat \<times> nat \<times> nat) list" where
  "PGGAN_LATENT_1024 =
     [(512, 1, 1),
      (512, 4, 4), (512, 4, 4),
      (512, 8, 8), (512, 8, 8),
      (512, 16, 16), (512, 16, 16),
      (512, 32, 32), (512, 32, 32),
      (256, 64, 64), (256, 64, 64),
      (128, 128, 128), (128, 128, 128),
      (64, 256, 256), (64, 256, 256),
      (32, 512, 512), (32, 512, 512),
      (16, 1024, 1024), (16, 1024, 1024),
      (3, 1024, 1024)]"

definition PGGAN_LATENT_256 :: "(nat \<times> nat \<times> nat) list" where
  "PGGAN_LATENT_256 =
     [(512, 1, 1), (512, 4, 4),
      (512, 4, 4), (512, 8, 8),
      (512, 8, 8), (512, 16, 16),
      (512, 16, 16), (512, 32, 32),
      (512, 32, 32), (256, 64, 64),
      (256, 64, 64), (128, 128, 128),
      (128, 128, 128), (64, 256, 256),
      (64, 256, 256), (3, 256, 256)]"

text \<open>
  The single-code wrapper \<^verbatim>\<open>PGGAN\<close>. The frozen generator comes from
  \<^verbatim>\<open>get_gan_model\<close>, a function of \<^verbatim>\<open>Derivable_Models.Gan_Utils\<close> whose source is not
  part of the three files: it is the parameter \<open>get_gan_model\<close>, and the frozen generator
  is a value of the type variable \<open>'g\<close>. Calling it (\<^verbatim>\<open>self.pggan(latent)\<close>) is the
  parameter \<open>call\<close>.
\<close>

record 'g PGGAN =
  pggan :: 'g
  init :: bool

definition PGGAN_init :: "(string \<Rightarrow> error + 'g) \<Rightarrow> string \<Rightarrow> error + 'g PGGAN" where
  "PGGAN_init get_gan_model gan_model_name =
     (case get_gan_model gan_model_name of
        Inl e \<Rightarrow> Inl e
      | Inr g \<Rightarrow> Inr \<lparr>pggan = g, init = False\<rparr>)"

definition PGGAN_input_size :: "'g PGGAN \<Rightarrow> nat list list" where
  "PGGAN_input_size self = [[512]]"

definition PGGAN_forward :: "('g \<Rightarrow> 'z \<Rightarrow> error + 'y) \<Rightarrow> 'g PGGAN \<Rightarrow> 'z list \<Rightarrow> error + 'y" where
  "PGGAN_forward call self z =
     (case py_index z 0 of
        Inl e \<Rightarrow> Inl e
      | Inr latent \<Rightarrow> call (pggan self) latent)"

text \<open>
  The multi-code wrapper \<^verbatim>\<open>PGGAN_multi_z\<close>. \<^verbatim>\<open>nn.Sequential(*list(children)[:k])\<close> is
  the list of the first \<open>k\<close> child layers, kept in order; \<open>children\<close> (a parameter, as
  the frozen generator is) lists the child modules of the frozen generator.
\<close>

record ('g, 'l) PGGAN_multi_z =
  blending_layer :: int
  z_number :: nat
  z_dim :: nat
  mz_pggan :: 'g
  pre_model :: "'l list"
  post_model :: "'l list"
  mz_init :: bool
  mask_size :: "nat \<times> nat"
  layer_c_number :: nat

definition PGGAN_multi_z_init ::
  "(string \<Rightarrow> error + 'g) \<Rightarrow> ('g \<Rightarrow> 'l list) \<Rightarrow> string \<Rightarrow> int \<Rightarrow> nat \<Rightarrow> args
     \<Rightarrow> error + ('g, 'l) PGGAN_multi_z" where
  "PGGAN_multi_z_init get_gan_model children gan_model_name bl zn a =
     (case get_gan_model gan_model_name of
        Inl e \<Rightarrow> Inl e
      | Inr g \<Rightarrow>
          (let PGGAN_LATENT =
                 (if gan_model_name = ''PGGAN-CelebA'' then PGGAN_LATENT_1024 else PGGAN_LATENT_256)
           in case py_index PGGAN_LATENT bl of
                Inl e \<Rightarrow> Inl e
              | Inr (c, hw) \<Rightarrow>
                  Inr \<lparr>blending_layer = bl, z_number = zn, z_dim = 512, mz_pggan = g,
                       pre_model = py_slice_to (children g) bl,
                       post_model = py_slice_from (children g) bl,
                       mz_init = True, mask_size = hw, layer_c_number = c\<rparr>))"

definition PGGAN_multi_z_input_size :: "('g, 'l) PGGAN_multi_z \<Rightarrow> nat list list" where
  "PGGAN_multi_z_input_size self =
     [[z_number self, z_dim self], [z_number self, layer_c_number self]]"

datatype ('g, 'l) derivable_generator =
    Single "'g PGGAN"
  | Multi "('g, 'l) PGGAN_multi_z"

definition invalid_generator_type_message :: string where
  "invalid_generator_type_message = ''Please indicate valid `generator_type`''"

definition get_derivable_generator ::
  "(string \<Rightarrow> error + 'g) \<Rightarrow> ('g \<Rightarrow> 'l list) \<Rightarrow> string \<Rightarrow> string \<Rightarrow> args
     \<Rightarrow> error + ('g, 'l) derivable_generator" where
  "get_derivable_generator get_gan_model children gan_model_name generator_type a =
     (if generator_type = ''PGGAN-z''
        then map_sum id Single (PGGAN_init get_gan_model gan_model_name)
      else if generator_type = ''PGGAN-Multi-Z''
        then map_sum id Multi
               (PGGAN_multi_z_init get_gan_model children gan_model_name
                  (arg_composing_layer a) (arg_z_number a) a)
      else Inl (Exception invalid_generator_type_message))"

section \<open>GAN/pggan_generator_network.py: constructing the frozen generator\<close>

text \<open>Python's \<^verbatim>\<open>str\<close> of an integer and of a list of integers, for the f-strings.\<close>

fun str_nat :: "nat \<Rightarrow> string" where
  "str_nat n =
     (if n < 10 then [char_of (48 + n)]
      else str_nat (n div 10) @ [char_of (48 + n mod 10)])"

declare str_nat.simps [simp del]

definition str_int :: "int \<Rightarrow> string" where
  "str_int i = (if i < 0 then CHR ''-'' # str_nat (nat (- i)) else str_nat (nat i))"

fun str_items :: "int list \<Rightarrow> string" where
  "str_items [] = []"
| "str_items [i] = str_int i"
| "str_items (i # is) = str_int i @ '', '' @ str_items is"

definition str_int_list :: "int list \<Rightarrow> string" where
  "str_int_list is = ''['' @ str_items is @ '']''"

text \<open>The module constants \<^verbatim>\<open>_RESOLUTIONS_ALLOWED\<close> and \<^verbatim>\<open>_INIT_RES\<close>.\<close>

definition RESOLUTIONS_ALLOWED :: "int list" where
  "RESOLUTIONS_ALLOWED = [8, 16, 32, 64, 128, 256, 512, 1024]"

definition INIT_RES :: int where
  "INIT_RES = 4"

text \<open>
  \<^verbatim>\<open>int(np.log2(r))\<close>. The constructor applies it to \<^verbatim>\<open>_INIT_RES\<close> and to a resolution
  that has passed the membership test, both powers of two, where the floating-point
  logarithm is exact: the model is the integer logarithm.
\<close>

fun int_log2 :: "nat \<Rightarrow> nat" where
  "int_log2 n = (if n < 2 then 0 else Suc (int_log2 (n div 2)))"

declare int_log2.simps [simp del]

datatype activation = Identity | LeakyReLU | Hardtanh

text \<open>
  A \<^verbatim>\<open>ConvBlock\<close> as its constructor leaves it: \<open>cb_upsample\<close> says that
  \<^verbatim>\<open>self.upsample\<close> is a \<^verbatim>\<open>ResolutionScalingLayer\<close> (otherwise \<^verbatim>\<open>nn.Identity\<close>),
  \<open>cb_activate\<close> which activation was chosen. The weights are not part of the model.
\<close>

record ConvBlock =
  cb_in_channels :: int
  cb_out_channels :: int
  cb_kernel_size :: int
  cb_padding :: int
  cb_upsample :: bool
  cb_use_conv2d_transpose :: bool
  cb_wscale_gain :: real
  cb_activate :: activation

text \<open>\<^verbatim>\<open>np.sqrt(2.0)\<close>, the default \<^verbatim>\<open>wscale_gain\<close>, as Python prints the double.\<close>

definition SQRT2 :: real where
  "SQRT2 = 1.4142135623730951"

text \<open>
  The constructor of \<^verbatim>\<open>ConvBlock\<close> allocates the block's tensors before it looks at
  the activation name: the convolution weight (\<^verbatim>\<open>nn.Conv2d\<close>, or
  \<^verbatim>\<open>torch.randn(kernel_size, kernel_size, in_channels, out_channels)\<close> for the fused
  block) and the bias \<^verbatim>\<open>torch.zeros(out_channels)\<close> of the weight-scale layer. torch
  refuses a negative size with \<^verbatim>\<open>RuntimeError\<close> (the message continues with the size);
  a size 0 gives an empty tensor.
\<close>

definition ConvBlock_init ::
  "int \<Rightarrow> int \<Rightarrow> int \<Rightarrow> int \<Rightarrow> bool \<Rightarrow> bool \<Rightarrow> real \<Rightarrow> string \<Rightarrow> error + ConvBlock" where
  "ConvBlock_init in_channels out_channels kernel_size padding upsample fused_scale
       wscale_gain activation_type =
     (let block = (\<lambda>act.
            \<lparr>cb_in_channels = in_channels, cb_out_channels = out_channels,
             cb_kernel_size = kernel_size, cb_padding = padding,
             cb_upsample = (upsample \<and> \<not> fused_scale),
             cb_use_conv2d_transpose = (upsample \<and> fused_scale),
             cb_wscale_gain = wscale_gain, cb_activate = act\<rparr>)
      in if in_channels < 0 \<or> out_channels < 0 \<or> kernel_size < 0
           then Inl (RuntimeError ''Trying to create tensor with negative dimension'')
         else if activation_type = ''linear'' then Inr (block Identity)
         else if activation_type = ''lrelu'' then Inr (block LeakyReLU)
         else if activation_type = ''tanh'' then Inr (block Hardtanh)
         else Inl (NotImplementedError
                     (''Not implemented activation function: '' @ activation_type @ ''!'')))"

datatype module = Conv ConvBlock | ResolutionScalingLayer nat

record PGGANGeneratorNet =
  init_res :: int
  init_res_log2 :: int
  resolution :: int
  final_res_log2 :: int
  z_space_dim :: int
  image_channels :: int
  fused_scale :: bool
  fmaps_base :: int
  fmaps_max :: int
  num_layers :: int
  modules :: "(string \<times> module) list"

definition get_nf :: "int \<Rightarrow> int \<Rightarrow> int \<Rightarrow> int" where
  "get_nf base maxf res = min (base div res) maxf"

text \<open>
  One pass of the constructor's loop over \<^verbatim>\<open>res_log2\<close>: the three \<^verbatim>\<open>add_module\<close>
  calls, in order. \<open>ir\<close> and \<open>irl\<close> are \<^verbatim>\<open>self.init_res\<close> and \<^verbatim>\<open>self.init_res_log2\<close>.
  The entries written to \<^verbatim>\<open>pth_to_tf_var_mapping\<close> are dictionary stores that cannot
  fail and that no other statement of the constructor reads; they are left out.
\<close>

definition add_block ::
  "int \<Rightarrow> int \<Rightarrow> int \<Rightarrow> int \<Rightarrow> bool \<Rightarrow> int \<Rightarrow> int \<Rightarrow> int
     \<Rightarrow> error + (string \<times> module) list" where
  "add_block ir irl zdim ichan fused base maxf res_log2 =
     (let res = 2 ^ nat res_log2;
          block_idx = res_log2 - irl;
          first = (if res = ir
                     then ConvBlock_init zdim (get_nf base maxf res) ir 3 False False
                            SQRT2 ''lrelu''
                   else ConvBlock_init (get_nf base maxf (res div 2)) (get_nf base maxf res)
                            3 1 True fused SQRT2 ''lrelu'')
      in case first of
           Inl e \<Rightarrow> Inl e
         | Inr b0 \<Rightarrow>
             (case ConvBlock_init (get_nf base maxf res) (get_nf base maxf res) 3 1
                     False False SQRT2 ''lrelu'' of
                Inl e \<Rightarrow> Inl e
              | Inr b1 \<Rightarrow>
                  (case ConvBlock_init (get_nf base maxf res) ichan 1 0 False False 1
                          ''linear'' of
                     Inl e \<Rightarrow> Inl e
                   | Inr b2 \<Rightarrow>
                       Inr [(''layer'' @ str_int (2 * block_idx), Conv b0),
                            (''layer'' @ str_int (2 * block_idx + 1), Conv b1),
                            (''output'' @ str_int block_idx, Conv b2)])))"

fun add_blocks ::
  "(int \<Rightarrow> error + (string \<times> module) list) \<Rightarrow> int list \<Rightarrow> (string \<times> module) list
     \<Rightarrow> error + (string \<times> module) list" where
  "add_blocks blk [] ms = Inr ms"
| "add_blocks blk (r # rs) ms =
     (case blk r of
        Inl e \<Rightarrow> Inl e
      | Inr new \<Rightarrow> add_blocks blk rs (ms @ new))"

definition PGGANGeneratorNet_init ::
  "int \<Rightarrow> int \<Rightarrow> int \<Rightarrow> bool \<Rightarrow> int \<Rightarrow> int \<Rightarrow> error + PGGANGeneratorNet" where
  "PGGANGeneratorNet_init res zdim ichan fused base maxf =
     (if res \<notin> set RESOLUTIONS_ALLOWED
        then Inl (ValueError (''Invalid resolution: '' @ str_int res @ ''!'' @ [CHR 0x0A]
                    @ ''Resolutions allowed: '' @ str_int_list RESOLUTIONS_ALLOWED @ ''.''))
      else
        (let irl = int (int_log2 (nat INIT_RES));
             frl = int (int_log2 (nat res))
         in case add_blocks (add_block INIT_RES irl zdim ichan fused base maxf) [irl..frl] [] of
              Inl e \<Rightarrow> Inl e
            | Inr ms \<Rightarrow>
                Inr \<lparr>init_res = INIT_RES, init_res_log2 = irl, resolution = res,
                     final_res_log2 = frl, z_space_dim = zdim, image_channels = ichan,
                     fused_scale = fused, fmaps_base = base, fmaps_max = maxf,
                     num_layers = (frl - irl + 1) * 2,
                     modules = ms @ [(''upsample'', ResolutionScalingLayer 2)]\<rparr>))"

section \<open>inversion/inversion_methods.py: GradientDescent.invert\<close>

text \<open>
  Tensors are mutable objects, and \<^verbatim>\<open>invert\<close> both updates them in place (the
  optimizer step) and records copies of them (\<^verbatim>\<open>copy.deepcopy\<close>), so the model has an
  explicit store. A \<open>ref\<close> is the identity of a tensor object, the store is the list of
  all tensor objects, and creating a tensor appends to it. The content of a tensor is a
  value of the type variable \<open>'v\<close>. Python lists and tuples of tensors are lists of
  \<open>ref\<close>s.
\<close>

type_synonym ref = nat

record 'v tensor_obj =
  data :: 'v
  requires_grad :: bool

type_synonym 'v heap = "'v tensor_obj list"

definition new_tensor :: "'v heap \<Rightarrow> 'v \<Rightarrow> ref \<times> 'v heap" where
  "new_tensor h v = (length h, h @ [\<lparr>data = v, requires_grad = False\<rparr>])"

fun new_tensors :: "'v heap \<Rightarrow> 'v list \<Rightarrow> ref list \<times> 'v heap" where
  "new_tensors h [] = ([], h)"
| "new_tensors h (v # vs) =
     (let (r, h1) = new_tensor h v; (rs, h2) = new_tensors h1 vs in (r # rs, h2))"

text \<open>The state \<^verbatim>\<open>invert\<close> runs in: the store and the state of torch's random generator.\<close>

record ('v, 'r) world =
  heap :: "'v heap"
  rng :: 'r

text \<open>
  What \<^verbatim>\<open>invert\<close> uses of torch, as parameters: \<^verbatim>\<open>torch.zeros\<close> and \<^verbatim>\<open>torch.randn\<close>
  (given a shape), the gradients \<^verbatim>\<open>loss.backward()\<close> leaves on the latents (a function
  of the forward pass, the loss function, the ground truth and the latents' values), and
  the update rule of \<^verbatim>\<open>optimizer.step()\<close> with the optimizer's internal state \<open>'o\<close>.
\<close>

record ('v, 'y, 'l, 'o, 'r) torch =
  torch_zeros :: "nat list \<Rightarrow> 'v"
  torch_randn :: "nat list \<Rightarrow> 'r \<Rightarrow> 'v \<times> 'r"
  autograd :: "('v list \<Rightarrow> error + 'y) \<Rightarrow> ('y \<Rightarrow> 'y \<Rightarrow> error + 'l) \<Rightarrow> 'y \<Rightarrow> 'v list \<Rightarrow> 'v list"
  optimizer_state0 :: 'o
  optimizer_update :: "optimizer_class \<Rightarrow> real \<Rightarrow> 'o \<Rightarrow> 'v list \<Rightarrow> 'v list \<Rightarrow> 'o \<times> 'v list"

text \<open>
  The generator object as \<^verbatim>\<open>invert\<close> sees it: \<^verbatim>\<open>input_size()\<close>, the attribute
  \<^verbatim>\<open>init\<close>, \<^verbatim>\<open>init_value(batch_size)\<close> and the call \<^verbatim>\<open>generator(latent_estimate)\<close>.
\<close>

record ('v, 'y, 'r) generator =
  gen_input_size :: "nat list list"
  gen_init :: bool
  gen_init_value :: "nat \<Rightarrow> 'r \<Rightarrow> error + ('v list \<times> 'r)"
  gen_forward :: "'v list \<Rightarrow> error + 'y"

text \<open>
  The optimizer object. The constructors of \<^verbatim>\<open>torch.optim.SGD\<close> and
  \<^verbatim>\<open>torch.optim.Adam\<close> reject a negative learning rate, and the constructor of their
  base class \<^verbatim>\<open>Optimizer\<close> then rejects an empty parameter list, both with
  \<^verbatim>\<open>ValueError\<close> (the first message continues with the rate). The optimizer keeps the
  tensor objects it was given, not copies.
\<close>

record 'o optimizer_obj =
  opt_class :: optimizer_class
  param_groups :: "ref list"
  opt_lr :: real
  opt_state :: 'o

definition Optimizer_init ::
  "'o \<Rightarrow> optimizer_class \<Rightarrow> ref list \<Rightarrow> real \<Rightarrow> error + 'o optimizer_obj" where
  "Optimizer_init s0 cls params rate =
     (if rate < 0 then Inl (ValueError ''Invalid learning rate'')
      else if params = [] then Inl (ValueError ''optimizer got an empty parameter list'')
      else Inr \<lparr>opt_class = cls, param_groups = params, opt_lr = rate, opt_state = s0\<rparr>)"

text \<open>
  Lines 31 to 39: the loop over \<^verbatim>\<open>input_size_list\<close> that appends to
  \<^verbatim>\<open>latent_estimate\<close>. The move of each new tensor to the accelerator (\<^verbatim>\<open>.cuda()\<close>)
  is not modelled, here or in \<^verbatim>\<open>init_value\<close>.
\<close>

fun fill_latents ::
  "('v, 'y, 'l, 'o, 'r) torch \<Rightarrow> string \<Rightarrow> nat \<Rightarrow> nat list list \<Rightarrow> ref list \<Rightarrow> ('v, 'r) world
     \<Rightarrow> ref list \<times> ('v, 'r) world" where
  "fill_latents T ty batch_size [] latent_estimate w = (latent_estimate, w)"
| "fill_latents T ty batch_size (input_size # rest) latent_estimate w =
     (if ty = ''Zero'' then
        (let (r, h') = new_tensor (heap w) (torch_zeros T (batch_size # input_size))
         in fill_latents T ty batch_size rest (latent_estimate @ [r]) (w\<lparr>heap := h'\<rparr>))
      else if ty = ''Normal'' then
        (let (v, g') = torch_randn T (batch_size # input_size) (rng w);
             (r, h') = new_tensor (heap w) v
         in fill_latents T ty batch_size rest (latent_estimate @ [r]) (w\<lparr>heap := h', rng := g'\<rparr>))
      else fill_latents T ty batch_size rest latent_estimate w)"

text \<open>Lines 29 to 45: where \<^verbatim>\<open>latent_estimate\<close> comes from.\<close>

definition initial_latents ::
  "('v, 'y, 'l, 'o, 'r) torch \<Rightarrow> GradientDescent \<Rightarrow> ('v, 'y, 'r) generator \<Rightarrow> nat \<Rightarrow> ref list
     \<Rightarrow> ('v, 'r) world \<Rightarrow> error + (ref list \<times> ('v, 'r) world)" where
  "initial_latents T self G batch_size init_refs w =
     (if length init_refs = 0 then
        (if gen_init G = False then
           Inr (fill_latents T (init_type self) batch_size (gen_input_size G) [] w)
         else
           (case gen_init_value G batch_size (rng w) of
              Inl e \<Rightarrow> Inl e
            | Inr (vals, g') \<Rightarrow>
                (let (rs, h') = new_tensors (heap w) vals
                 in Inr (rs, w\<lparr>heap := h', rng := g'\<rparr>))))
      else if length init_refs = length (gen_input_size G) then Inr (init_refs, w)
      else Inl (AssertionError ''Please check the number of init value''))"

text \<open>Lines 47 and 48.\<close>

definition set_requires_grad :: "'v heap \<Rightarrow> ref list \<Rightarrow> 'v heap" where
  "set_requires_grad h rs = fold (\<lambda>r h'. h'[r := (h' ! r)\<lparr>requires_grad := True\<rparr>]) rs h"

text \<open>
  The in-place update of the optimizer's parameters with their new values. A tensor
  object that occurs twice among the parameters receives the value computed for its last
  occurrence. The lists that \<^verbatim>\<open>invert\<close> builds itself hold distinct, freshly allocated
  tensors; for an explicit \<^verbatim>\<open>init\<close> holding one tensor twice, torch treats the tensor once
  per occurrence and this function is only an approximation of its step.
\<close>

fun store_all :: "'v heap \<Rightarrow> ref list \<Rightarrow> 'v list \<Rightarrow> 'v heap" where
  "store_all h (r # rs) (v # vs) = store_all (h[r := (h ! r)\<lparr>data := v\<rparr>]) rs vs"
| "store_all h rs vs = h"

text \<open>
  Lines 56 to 62: one pass of the loop body, up to and including the optimizer step.
  \<^verbatim>\<open>optimizer.zero_grad()\<close> clears the gradients of the pass before, so the gradients the
  step uses are those of this pass alone, which is what \<open>autograd\<close> returns.
\<close>

definition iteration ::
  "('v, 'y, 'l, 'o, 'r) torch \<Rightarrow> ('v, 'y, 'r) generator \<Rightarrow> 'y \<Rightarrow> ('y \<Rightarrow> 'y \<Rightarrow> error + 'l)
     \<Rightarrow> ref list \<Rightarrow> 'o optimizer_obj \<Rightarrow> 'v heap \<Rightarrow> error + ('o optimizer_obj \<times> 'v heap)" where
  "iteration T G gt_image loss_function latent_estimate opt h =
     (let vals = map (\<lambda>r. data (h ! r)) latent_estimate
      in case gen_forward G vals of
           Inl e \<Rightarrow> Inl e
         | Inr y_estimate \<Rightarrow>
             (case loss_function y_estimate gt_image of
                Inl e \<Rightarrow> Inl e
              | Inr loss \<Rightarrow>
                  (let grads = autograd T (gen_forward G) loss_function gt_image vals;
                       params = map (\<lambda>r. data (h ! r)) (param_groups opt);
                       (s', new) = optimizer_update T (opt_class opt) (opt_lr opt)
                                     (opt_state opt) grads params
                   in Inr (opt\<lparr>opt_state := s'\<rparr>, store_all h (param_groups opt) new))))"

text \<open>
  \<^verbatim>\<open>copy.deepcopy\<close> of a list of tensors: a new list of new tensor objects. The memo
  maps each object already copied to its copy, so an object that occurs twice in the
  list is copied once.
\<close>

fun deepcopy_items ::
  "(ref \<times> ref) list \<Rightarrow> 'v heap \<Rightarrow> ref list \<Rightarrow> ref list \<times> 'v heap" where
  "deepcopy_items memo h [] = ([], h)"
| "deepcopy_items memo h (r # rs) =
     (case map_of memo r of
        Some c \<Rightarrow> (let (cs, h') = deepcopy_items memo h rs in (c # cs, h'))
      | None \<Rightarrow>
          (let (cs, h') = deepcopy_items ((r, length h) # memo) (h @ [h ! r]) rs
           in (length h # cs, h')))"

definition deepcopy :: "'v heap \<Rightarrow> ref list \<Rightarrow> ref list \<times> 'v heap" where
  "deepcopy h rs = deepcopy_items [] h rs"

text \<open>
  Lines 55 to 64: the loop, \<open>n\<close> passes left, \<^verbatim>\<open>history\<close> as built so far (the progress
  bar of \<^verbatim>\<open>tqdm\<close> only prints).
\<close>

fun optimize_loop ::
  "('v, 'y, 'l, 'o, 'r) torch \<Rightarrow> ('v, 'y, 'r) generator \<Rightarrow> 'y \<Rightarrow> ('y \<Rightarrow> 'y \<Rightarrow> error + 'l)
     \<Rightarrow> bool \<Rightarrow> ref list \<Rightarrow> nat \<Rightarrow> 'o optimizer_obj \<Rightarrow> ref list list \<Rightarrow> 'v heap
     \<Rightarrow> error + ('o optimizer_obj \<times> ref list list \<times> 'v heap)" where
  "optimize_loop T G gt_image loss_function video latent_estimate 0 opt history h =
     Inr (opt, history, h)"
| "optimize_loop T G gt_image loss_function video latent_estimate (Suc n) opt history h =
     (case iteration T G gt_image loss_function latent_estimate opt h of
        Inl e \<Rightarrow> Inl e
      | Inr (opt', h') \<Rightarrow>
          (if video then
             (let (c, h'') = deepcopy h' latent_estimate
              in optimize_loop T G gt_image loss_function video latent_estimate n opt'
                   (history @ [c]) h'')
           else optimize_loop T G gt_image loss_function video latent_estimate n opt'
                  history h'))"

text \<open>Lines 47 to 65: everything after \<^verbatim>\<open>latent_estimate\<close> is bound.\<close>

definition optimise ::
  "('v, 'y, 'l, 'o, 'r) torch \<Rightarrow> GradientDescent \<Rightarrow> ('v, 'y, 'r) generator \<Rightarrow> 'y
     \<Rightarrow> ('y \<Rightarrow> 'y \<Rightarrow> error + 'l) \<Rightarrow> bool \<Rightarrow> ref list \<Rightarrow> ('v, 'r) world
     \<Rightarrow> error + (ref list \<times> ref list list \<times> ('v, 'r) world)" where
  "optimise T self G gt_image loss_function video latent_estimate w =
     (case Optimizer_init (optimizer_state0 T) (optimizer self) latent_estimate (lr self) of
        Inl e \<Rightarrow> Inl e
      | Inr opt \<Rightarrow>
          (case optimize_loop T G gt_image loss_function video latent_estimate
                  (nat (iterations self)) opt [] (set_requires_grad (heap w) latent_estimate) of
             Inl e \<Rightarrow> Inl e
           | Inr (opt', history, h') \<Rightarrow> Inr (latent_estimate, history, w\<lparr>heap := h'\<rparr>)))"

text \<open>
  \<^verbatim>\<open>invert(generator, gt_image, loss_function, batch_size, video, *init)\<close>: the result
  is the pair \<^verbatim>\<open>(latent_estimate, history)\<close> and the state the run leaves.
\<close>

definition invert ::
  "('v, 'y, 'l, 'o, 'r) torch \<Rightarrow> GradientDescent \<Rightarrow> ('v, 'y, 'r) generator \<Rightarrow> 'y
     \<Rightarrow> ('y \<Rightarrow> 'y \<Rightarrow> error + 'l) \<Rightarrow> nat \<Rightarrow> bool \<Rightarrow> ref list \<Rightarrow> ('v, 'r) world
     \<Rightarrow> error + (ref list \<times> ref list list \<times> ('v, 'r) world)" where
  "invert T self G gt_image loss_function batch_size video init_refs w =
     (case initial_latents T self G batch_size init_refs w of
        Inl e \<Rightarrow> Inl e
      | Inr (latent_estimate, w') \<Rightarrow>
          optimise T self G gt_image loss_function video latent_estimate w')"

text \<open>
  A generator of one number for evaluating the definitions: the forward pass returns the
  first latent, the loss is the squared distance, whose derivative \<open>autograd\<close> computes,
  and the update rule is plain gradient descent.
\<close>

definition toy_torch :: "(real, real, real, unit, nat) torch" where
  "toy_torch =
     \<lparr>torch_zeros = (\<lambda>shape. 0),
      torch_randn = (\<lambda>shape g. (real g, Suc g)),
      autograd = (\<lambda>fwd loss_function gt vals. map (\<lambda>v. 2 * (v - gt)) vals),
      optimizer_state0 = (),
      optimizer_update = (\<lambda>cls rate s grads vals. (s, map2 (\<lambda>v g. v - rate * g) vals grads))\<rparr>"

definition toy_generator :: "(real, real, nat) generator" where
  "toy_generator =
     \<lparr>gen_input_size = [[1]],
      gen_init = False,
      gen_init_value = (\<lambda>batch_size g. Inr ([], g)),
      gen_forward = (\<lambda>z. py_index z 0)\<rparr>"

definition toy_loss :: "real \<Rightarrow> real \<Rightarrow> error + real" where
  "toy_loss y gt = Inr ((y - gt)\<^sup>2)"

text \<open>Whether a result is an \<^verbatim>\<open>UnboundLocalError\<close>, the reading of an unbound local variable.\<close>

fun raises_UnboundLocalError :: "error + 'a \<Rightarrow> bool" where
  "raises_UnboundLocalError (Inl (UnboundLocalError m)) = True"
| "raises_UnboundLocalError r = False"

section \<open>Tensors\<close>

text \<open>
  A tensor of rank \<open>n\<close> is a list nested \<open>n\<close> deep, outermost dimension first; the
  elements are real numbers (floating-point rounding is not modelled). Two tensors of
  the same rank combine elementwise by torch's broadcasting rule: in each dimension the
  sizes are equal, or one of them is 1 and that operand is repeated; anything else
  raises \<^verbatim>\<open>RuntimeError\<close>.
\<close>

type_synonym t2 = "real list list"
type_synonym t3 = "real list list list"
type_synonym t4 = "real list list list list"

fun sequence :: "(error + 'a) list \<Rightarrow> error + 'a list" where
  "sequence [] = Inr []"
| "sequence (r # rs) =
     (case r of
        Inl e \<Rightarrow> Inl e
      | Inr v \<Rightarrow> (case sequence rs of Inl e \<Rightarrow> Inl e | Inr vs \<Rightarrow> Inr (v # vs)))"

definition broadcast ::
  "('a \<Rightarrow> 'b \<Rightarrow> error + 'c) \<Rightarrow> 'a list \<Rightarrow> 'b list \<Rightarrow> error + 'c list" where
  "broadcast f xs ys =
     (if length xs = length ys then sequence (map2 f xs ys)
      else if length ys = 1 then sequence (map (\<lambda>x. f x (hd ys)) xs)
      else if length xs = 1 then sequence (map (\<lambda>y. f (hd xs) y) ys)
      else Inl (RuntimeError ''The size of tensor a must match the size of tensor b''))"

definition pointwise4 :: "(real \<Rightarrow> real \<Rightarrow> real) \<Rightarrow> t4 \<Rightarrow> t4 \<Rightarrow> error + t4" where
  "pointwise4 f = broadcast (broadcast (broadcast (broadcast (\<lambda>a b. Inr (f a b)))))"

definition map4 :: "(real \<Rightarrow> real) \<Rightarrow> t4 \<Rightarrow> t4" where
  "map4 f = map (map (map (map f)))"

text \<open>The tensor of a given shape whose element at an index is a given function of it.\<close>

definition tab2 :: "nat \<Rightarrow> nat \<Rightarrow> (nat \<Rightarrow> nat \<Rightarrow> 'a) \<Rightarrow> 'a list list" where
  "tab2 a b f = map (\<lambda>i. map (\<lambda>j. f i j) [0..<b]) [0..<a]"

definition tab3 :: "nat \<Rightarrow> nat \<Rightarrow> nat \<Rightarrow> (nat \<Rightarrow> nat \<Rightarrow> nat \<Rightarrow> 'a) \<Rightarrow> 'a list list list" where
  "tab3 a b c f = map (\<lambda>i. tab2 b c (f i)) [0..<a]"

definition tab4 ::
  "nat \<Rightarrow> nat \<Rightarrow> nat \<Rightarrow> nat \<Rightarrow> (nat \<Rightarrow> nat \<Rightarrow> nat \<Rightarrow> nat \<Rightarrow> 'a) \<Rightarrow> 'a list list list list" where
  "tab4 a b c d f = map (\<lambda>i. tab3 b c d (f i)) [0..<a]"

definition has_shape2 :: "'a list list \<Rightarrow> nat \<Rightarrow> nat \<Rightarrow> bool" where
  "has_shape2 t a b = (length t = a \<and> (\<forall>r\<in>set t. length r = b))"

definition has_shape3 :: "'a list list list \<Rightarrow> nat \<Rightarrow> nat \<Rightarrow> nat \<Rightarrow> bool" where
  "has_shape3 t a b c = (length t = a \<and> (\<forall>m\<in>set t. has_shape2 m b c))"

definition has_shape4 :: "'a list list list list \<Rightarrow> nat \<Rightarrow> nat \<Rightarrow> nat \<Rightarrow> nat \<Rightarrow> bool" where
  "has_shape4 t a b c d = (length t = a \<and> (\<forall>s\<in>set t. has_shape3 s b c d))"

section \<open>GAN/pggan_generator_network.py: PixelNormLayer\<close>

record PixelNormLayer =
  eps :: real

definition PixelNormLayer_init :: "real \<Rightarrow> PixelNormLayer" where
  "PixelNormLayer_init epsilon = \<lparr>eps = epsilon\<rparr>"

text \<open>
  \<^verbatim>\<open>torch.mean(t, dim=1, keepdim=True)\<close> on a tensor of shape \<open>(B, C, H, W)\<close>: the result
  has shape \<open>(B, 1, H, W)\<close>. The spatial sizes are read off the first channel; a sample
  with no channel has none to read, and its mean is the empty plane.
\<close>

definition height :: "'a list list list \<Rightarrow> nat" where
  "height s = (case s of [] \<Rightarrow> 0 | c # cs \<Rightarrow> length c)"

definition width :: "'a list list list \<Rightarrow> nat" where
  "width s = (case s of [] \<Rightarrow> 0 | c # cs \<Rightarrow> (case c of [] \<Rightarrow> 0 | r # rs \<Rightarrow> length r))"

definition mean_dim1 :: "t4 \<Rightarrow> t4" where
  "mean_dim1 t =
     map (\<lambda>s. [tab2 (height s) (width s)
                  (\<lambda>h w. sum_list (map (\<lambda>c. c ! h ! w) s) / real (length s))]) t"

definition PixelNormLayer_forward :: "PixelNormLayer \<Rightarrow> t4 \<Rightarrow> error + t4" where
  "PixelNormLayer_forward self x =
     pointwise4 (/) x (map4 sqrt (map4 (\<lambda>v. v + eps self) (mean_dim1 (map4 (\<lambda>v. v\<^sup>2) x))))"

section \<open>Derivable_Models/Derivable_Generator.py: the multi-code wrapper's methods\<close>

text \<open>
  \<^verbatim>\<open>torch.full\<close> for a shape of rank 3, and \<^verbatim>\<open>torch.randn\<close> for one: the random
  generator is the sequence \<open>samples\<close> of the numbers it will draw and the position
  \<open>pos\<close> reached in it; \<^verbatim>\<open>randn\<close> takes the next numbers in row-major order.
\<close>

definition full3 :: "nat \<Rightarrow> nat \<Rightarrow> nat \<Rightarrow> real \<Rightarrow> t3" where
  "full3 a b c fill_value = replicate a (replicate b (replicate c fill_value))"

definition randn3 :: "(nat \<Rightarrow> real) \<Rightarrow> nat \<Rightarrow> nat \<Rightarrow> nat \<Rightarrow> nat \<Rightarrow> t3 \<times> nat" where
  "randn3 samples a b c pos =
     (tab3 a b c (\<lambda>i j k. samples (pos + (i * b + j) * c + k)), pos + a * b * c)"

text \<open>
  \<^verbatim>\<open>init_value\<close>. The quotient \<^verbatim>\<open>1 / self.z_number\<close> is Python's division of two
  integers, evaluated after \<^verbatim>\<open>torch.randn\<close> has run; it raises for \<^verbatim>\<open>z_number = 0\<close>.
\<close>

definition PGGAN_multi_z_init_value ::
  "(nat \<Rightarrow> real) \<Rightarrow> ('g, 'l) PGGAN_multi_z \<Rightarrow> nat \<Rightarrow> nat \<Rightarrow> error + (t3 list \<times> nat)" where
  "PGGAN_multi_z_init_value samples self batch_size pos =
     (let (z_estimate, pos') = randn3 samples batch_size (z_number self) (z_dim self) pos
      in if z_number self = 0 then Inl (ZeroDivisionError ''division by zero'')
         else
           (let z_alpha = full3 batch_size (z_number self) (layer_c_number self)
                            (1 / real (z_number self))
            in Inr ([z_estimate, z_alpha], pos')))"

text \<open>
  The indexing \<^verbatim>\<open>t[:, j, :]\<close> of a rank-3 tensor, and \<^verbatim>\<open>.view((-1, d, 1, 1))\<close> of the
  rank-2 slice it gives. The view is modelled where the rows of the slice have length
  \<open>d > 0\<close>, the case of a tensor of the declared shape; for every other slice the model
  raises \<^verbatim>\<open>RuntimeError\<close>, as torch does for most of them.
\<close>

definition select_dim1 :: "'a list list list \<Rightarrow> nat \<Rightarrow> error + 'a list list" where
  "select_dim1 t j =
     (if \<forall>m\<in>set t. j < length m then Inr (map (\<lambda>m. m ! j) t)
      else Inl (IndexError ''index is out of bounds for dimension 1''))"

definition view_channels :: "nat \<Rightarrow> t2 \<Rightarrow> error + t4" where
  "view_channels d t =
     (if 0 < d \<and> (\<forall>r\<in>set t. length r = d) then Inr (map (map (\<lambda>v. [[v]])) t)
      else Inl (RuntimeError ''shape is invalid for input''))"

text \<open>\<^verbatim>\<open>nn.Sequential\<close>: the layers in order; \<open>call\<close> runs one layer and may raise.\<close>

fun Sequential :: "('l \<Rightarrow> t4 \<Rightarrow> error + t4) \<Rightarrow> 'l list \<Rightarrow> t4 \<Rightarrow> error + t4" where
  "Sequential call [] x = Inr x"
| "Sequential call (l # ls) x =
     (case call l x of Inl e \<Rightarrow> Inl e | Inr y \<Rightarrow> Sequential call ls y)"

text \<open>
  Line 109, the element appended for index \<open>j\<close>: Python evaluates the left operand of
  \<^verbatim>\<open>*\<close> (the pre-stage on the reshaped latent) before the right one (the reshaped
  weights), then multiplies with broadcasting.
\<close>

definition weighted_feature_map ::
  "('l \<Rightarrow> t4 \<Rightarrow> error + t4) \<Rightarrow> ('g, 'l) PGGAN_multi_z \<Rightarrow> t3 \<Rightarrow> t3 \<Rightarrow> nat \<Rightarrow> error + t4" where
  "weighted_feature_map call self z_estimate alpha_estimate j =
     (case select_dim1 z_estimate j of
        Inl e \<Rightarrow> Inl e
      | Inr zj \<Rightarrow>
          (case view_channels (z_dim self) zj of
             Inl e \<Rightarrow> Inl e
           | Inr latent \<Rightarrow>
               (case Sequential call (pre_model self) latent of
                  Inl e \<Rightarrow> Inl e
                | Inr feature_map \<Rightarrow>
                    (case select_dim1 alpha_estimate j of
                       Inl e \<Rightarrow> Inl e
                     | Inr aj \<Rightarrow>
                         (case view_channels (layer_c_number self) aj of
                            Inl e \<Rightarrow> Inl e
                          | Inr weights \<Rightarrow> pointwise4 (*) feature_map weights)))))"

text \<open>Lines 104 to 109: the loop that appends to \<^verbatim>\<open>feature_maps_list\<close>.\<close>

fun feature_maps_loop :: "(nat \<Rightarrow> error + t4) \<Rightarrow> nat list \<Rightarrow> t4 list \<Rightarrow> error + t4 list" where
  "feature_maps_loop f [] feature_maps_list = Inr feature_maps_list"
| "feature_maps_loop f (j # js) feature_maps_list =
     (case f j of
        Inl e \<Rightarrow> Inl e
      | Inr m \<Rightarrow> feature_maps_loop f js (feature_maps_list @ [m]))"

text \<open>
  Line 111. Python's \<^verbatim>\<open>sum\<close> starts from the integer 0 and adds the items from the
  left: \<^verbatim>\<open>0 + m\<close> for the first item, then tensor additions. The list has
  \<^verbatim>\<open>z_number\<close> items, so it is empty only for \<^verbatim>\<open>z_number = 0\<close>, where the sum is the
  integer 0 and \<^verbatim>\<open>0 / 0\<close> raises.
\<close>

fun sum_from :: "t4 \<Rightarrow> t4 list \<Rightarrow> error + t4" where
  "sum_from acc [] = Inr acc"
| "sum_from acc (m # ms) =
     (case pointwise4 (+) acc m of Inl e \<Rightarrow> Inl e | Inr s \<Rightarrow> sum_from s ms)"

definition fused_feature_map ::
  "('l \<Rightarrow> t4 \<Rightarrow> error + t4) \<Rightarrow> ('g, 'l) PGGAN_multi_z \<Rightarrow> t3 \<Rightarrow> t3 \<Rightarrow> error + t4" where
  "fused_feature_map call self z_estimate alpha_estimate =
     (case feature_maps_loop (weighted_feature_map call self z_estimate alpha_estimate)
             [0..<z_number self] [] of
        Inl e \<Rightarrow> Inl e
      | Inr feature_maps_list \<Rightarrow>
          (case feature_maps_list of
             [] \<Rightarrow> Inl (ZeroDivisionError ''division by zero'')
           | m # ms \<Rightarrow>
               (case sum_from (map4 (\<lambda>v. 0 + v) m) ms of
                  Inl e \<Rightarrow> Inl e
                | Inr s \<Rightarrow> Inr (map4 (\<lambda>v. v / real (z_number self)) s))))"

text \<open>\<^verbatim>\<open>forward\<close>; the first line unpacks \<^verbatim>\<open>z\<close>, which must have two items.\<close>

definition PGGAN_multi_z_forward ::
  "('l \<Rightarrow> t4 \<Rightarrow> error + t4) \<Rightarrow> ('g, 'l) PGGAN_multi_z \<Rightarrow> t3 list \<Rightarrow> error + t4" where
  "PGGAN_multi_z_forward call self z =
     (case z of
        [z_estimate, alpha_estimate] \<Rightarrow>
          (case fused_feature_map call self z_estimate alpha_estimate of
             Inl e \<Rightarrow> Inl e
           | Inr fused \<Rightarrow> Sequential call (post_model self) fused)
      | _ \<Rightarrow> Inl (ValueError ''wrong number of values to unpack''))"

text \<open>
  A layer and a multi-code wrapper small enough to evaluate: the layer turns each
  \<open>1 \<times> 1\<close> channel into a \<open>2 \<times> 2\<close> plane with the value on the diagonal.
\<close>

definition toy_layer :: "unit \<Rightarrow> t4 \<Rightarrow> error + t4" where
  "toy_layer l x = Inr (map (map (\<lambda>ch. [[ch ! 0 ! 0, 0], [0, ch ! 0 ! 0]])) x)"

definition toy_multi_z :: "(unit, unit) PGGAN_multi_z" where
  "toy_multi_z =
     \<lparr>blending_layer = 1, z_number = 2, z_dim = 2, mz_pggan = (), pre_model = [()],
      post_model = [], mz_init = True, mask_size = (2, 2), layer_c_number = 2\<rparr>"

section \<open>Theorems\<close>

subsection \<open>The inversion factory\<close>

text \<open>
  Claim C10. For every \<^verbatim>\<open>inversion_type\<close> other than \<^verbatim>\<open>'GD'\<close> and \<^verbatim>\<open>'Adam'\<close>,
  \<^verbatim>\<open>get_inversion\<close> raises nothing and returns \<^verbatim>\<open>None\<close>: the caller receives no
  optimizer object, and the invalid selector shows only when the caller uses the value.
\<close>

theorem get_inversion_unknown_returns_None:
  assumes "inversion_type \<noteq> ''GD''" and "inversion_type \<noteq> ''Adam''"
  shows "get_inversion inversion_type a = Inr None"
  using assms by (simp add: get_inversion_def)

theorem get_inversion_unknown_returns_None_witness:
  "''LBFGS'' \<noteq> ''GD'' \<and> ''LBFGS'' \<noteq> ''Adam''
   \<and> get_inversion ''LBFGS''
        \<lparr>arg_iterations = 3000, arg_lr = 1, arg_init_type = ''Zero'',
         arg_composing_layer = 6, arg_z_number = 30\<rparr> = Inr None"
  using get_inversion_unknown_returns_None [of "''LBFGS''"] by simp

subsection \<open>The generator factory and the single-code wrapper\<close>

text \<open>
  Claim C4, as amended. For every \<^verbatim>\<open>generator_type\<close> other than \<^verbatim>\<open>'PGGAN-z'\<close> and
  \<^verbatim>\<open>'PGGAN-Multi-Z'\<close> the factory raises a plain \<^verbatim>\<open>Exception\<close> whose message is one
  fixed text, the same for every invalid value; no frozen generator is loaded.
\<close>

theorem get_derivable_generator_unknown_type:
  assumes "generator_type \<noteq> ''PGGAN-z''" and "generator_type \<noteq> ''PGGAN-Multi-Z''"
  shows "get_derivable_generator get_gan_model children gan_model_name generator_type a
           = Inl (Exception ''Please indicate valid `generator_type`'')"
  using assms by (simp add: get_derivable_generator_def invalid_generator_type_message_def)

theorem get_derivable_generator_unknown_type_witness:
  "''StyleGAN'' \<noteq> ''PGGAN-z'' \<and> ''StyleGAN'' \<noteq> ''PGGAN-Multi-Z''
   \<and> get_derivable_generator (\<lambda>n. Inr ()) (\<lambda>g. [] :: unit list) ''PGGAN-CelebA'' ''StyleGAN''
        \<lparr>arg_iterations = 3000, arg_lr = 1, arg_init_type = ''Zero'',
         arg_composing_layer = 6, arg_z_number = 30\<rparr>
       = Inl (Exception ''Please indicate valid `generator_type`'')"
  using get_derivable_generator_unknown_type [of "''StyleGAN''"] by simp

text \<open>
  Claim C4, as stated, fails: for the invalid value \<^verbatim>\<open>'StyleGAN'\<close> the message of the
  exception raised does not contain the value.
\<close>

theorem get_derivable_generator_message_omits_value:
  "get_derivable_generator (\<lambda>n. Inr ()) (\<lambda>g. [] :: unit list) ''PGGAN-CelebA'' ''StyleGAN''
        \<lparr>arg_iterations = 3000, arg_lr = 1, arg_init_type = ''Zero'',
         arg_composing_layer = 6, arg_z_number = 30\<rparr>
     = Inl (Exception invalid_generator_type_message)
   \<and> \<not> sublist ''StyleGAN'' invalid_generator_type_message"
proof -
  have "\<not> sublist ''StyleGAN'' invalid_generator_type_message"
    unfolding invalid_generator_type_message_def by code_simp
  then show ?thesis
    by (simp add: get_derivable_generator_def)
qed

text \<open>
  Claim C7. The single-code wrapper is a pass-through: its forward pass on the
  one-element list \<open>[z]\<close> is the call of the frozen generator on \<open>z\<close>, whatever that
  call returns or raises, and \<^verbatim>\<open>input_size()\<close> is the one shape \<open>(512,)\<close>.
\<close>

theorem PGGAN_forward_pass_through:
  "PGGAN_forward call self [z] = call (pggan self) z \<and> PGGAN_input_size self = [[512]]"
  by (simp add: PGGAN_forward_def PGGAN_input_size_def py_index_def)

subsection \<open>Resolution validation\<close>

lemma ConvBlock_init_builds:
  assumes "0 \<le> i" and "0 \<le> oc" and "0 \<le> k" and "a = ''lrelu'' \<or> a = ''linear''"
  shows "\<exists>b. ConvBlock_init i oc k p u f g a = Inr b"
  using assms by (auto simp: ConvBlock_init_def)

lemma ConvBlock_init_no_ValueError:
  "ConvBlock_init i oc k p u f g a \<noteq> Inl (ValueError msg)"
  by (simp add: ConvBlock_init_def)

lemma get_nf_nonneg:
  assumes "0 \<le> base" and "0 \<le> maxf" and "0 \<le> res"
  shows "0 \<le> get_nf base maxf res"
  using assms by (simp add: get_nf_def div_int_pos_iff)

lemma add_block_succeeds:
  assumes "0 \<le> ir" and "0 \<le> zdim" and "0 \<le> ichan" and "0 \<le> base" and "0 \<le> maxf"
  shows "\<exists>new. add_block ir irl zdim ichan fused base maxf r = Inr new"
proof -
  have nf: "0 \<le> get_nf base maxf (2 ^ nat r)" "0 \<le> get_nf base maxf (2 ^ nat r div 2)"
    using assms by (simp_all add: get_nf_nonneg)
  have "\<exists>b0. ConvBlock_init zdim (get_nf base maxf (2 ^ nat r)) ir 3 False False SQRT2 ''lrelu''
               = Inr b0"
    by (rule ConvBlock_init_builds) (use assms nf in simp_all)
  moreover have "\<exists>b0. ConvBlock_init (get_nf base maxf (2 ^ nat r div 2))
                      (get_nf base maxf (2 ^ nat r)) 3 1 True fused SQRT2 ''lrelu'' = Inr b0"
    by (rule ConvBlock_init_builds) (use nf in simp_all)
  ultimately obtain b0 where b0:
    "(if (2::int) ^ nat r = ir
        then ConvBlock_init zdim (get_nf base maxf (2 ^ nat r)) ir 3 False False SQRT2 ''lrelu''
      else ConvBlock_init (get_nf base maxf (2 ^ nat r div 2)) (get_nf base maxf (2 ^ nat r))
             3 1 True fused SQRT2 ''lrelu'') = Inr b0"
    by (cases "(2::int) ^ nat r = ir") auto
  have "\<exists>b1. ConvBlock_init (get_nf base maxf (2 ^ nat r)) (get_nf base maxf (2 ^ nat r)) 3 1
               False False SQRT2 ''lrelu'' = Inr b1"
    by (rule ConvBlock_init_builds) (use nf in simp_all)
  then obtain b1 where b1:
    "ConvBlock_init (get_nf base maxf (2 ^ nat r)) (get_nf base maxf (2 ^ nat r)) 3 1
       False False SQRT2 ''lrelu'' = Inr b1"
    by blast
  have "\<exists>b2. ConvBlock_init (get_nf base maxf (2 ^ nat r)) ichan 1 0 False False 1 ''linear''
               = Inr b2"
    by (rule ConvBlock_init_builds) (use assms nf in simp_all)
  then obtain b2 where b2:
    "ConvBlock_init (get_nf base maxf (2 ^ nat r)) ichan 1 0 False False 1 ''linear'' = Inr b2"
    by blast
  show ?thesis
    unfolding add_block_def Let_def by (simp only: b0 b1 b2 sum.case) blast
qed

lemma add_block_no_ValueError:
  "add_block ir irl zdim ichan fused base maxf r \<noteq> Inl (ValueError msg)"
  unfolding add_block_def Let_def
  by (auto simp: ConvBlock_init_no_ValueError split: sum.splits if_splits)

lemma add_blocks_succeed:
  assumes "\<And>r. \<exists>new. blk r = Inr new"
  shows "\<exists>ms'. add_blocks blk rs ms = Inr ms'"
proof (induction rs arbitrary: ms)
  case Nil
  show ?case by simp
next
  case (Cons r rs)
  obtain new where "blk r = Inr new" using assms by blast
  then show ?case using Cons.IH by simp
qed

lemma add_blocks_no_ValueError:
  assumes "\<And>r msg. blk r \<noteq> Inl (ValueError msg)"
  shows "add_blocks blk rs ms \<noteq> Inl (ValueError msg)"
proof (induction rs arbitrary: ms)
  case Nil
  show ?case by simp
next
  case (Cons r rs)
  show ?case
  proof (cases "blk r")
    case (Inl e)
    then show ?thesis using assms [of r msg] by auto
  next
    case (Inr new)
    then show ?thesis using Cons.IH by simp
  qed
qed

lemma RESOLUTIONS_ALLOWED_set:
  "set RESOLUTIONS_ALLOWED = {8, 16, 32, 64, 128, 256, 512, 1024}"
  by (simp add: RESOLUTIONS_ALLOWED_def)

lemma init_allowed:
  assumes "res \<in> set RESOLUTIONS_ALLOWED"
    and "0 \<le> zdim" and "0 \<le> ichan" and "0 \<le> base" and "0 \<le> maxf"
  shows "\<exists>net. PGGANGeneratorNet_init res zdim ichan fused base maxf = Inr net"
proof -
  have "\<And>r. \<exists>new. add_block INIT_RES (int (int_log2 (nat INIT_RES))) zdim ichan fused base maxf r
                      = Inr new"
    by (rule add_block_succeeds) (use assms in \<open>simp_all add: INIT_RES_def\<close>)
  then obtain ms where
    "add_blocks (add_block INIT_RES (int (int_log2 (nat INIT_RES))) zdim ichan fused base maxf)
       [int (int_log2 (nat INIT_RES))..int (int_log2 (nat res))] [] = Inr ms"
    using add_blocks_succeed
      [of "add_block INIT_RES (int (int_log2 (nat INIT_RES))) zdim ichan fused base maxf"]
    by blast
  with assms(1) show ?thesis
    by (simp add: PGGANGeneratorNet_init_def Let_def)
qed

lemma init_allowed_no_ValueError:
  assumes "res \<in> set RESOLUTIONS_ALLOWED"
  shows "PGGANGeneratorNet_init res zdim ichan fused base maxf \<noteq> Inl (ValueError msg)"
proof -
  have "add_blocks (add_block INIT_RES (int (int_log2 (nat INIT_RES))) zdim ichan fused base maxf)
          [int (int_log2 (nat INIT_RES))..int (int_log2 (nat res))] [] \<noteq> Inl (ValueError msg)"
    by (rule add_blocks_no_ValueError) (rule add_block_no_ValueError)
  with assms show ?thesis
    by (auto simp: PGGANGeneratorNet_init_def Let_def split: sum.splits)
qed

lemma init_refused:
  assumes "res \<notin> set RESOLUTIONS_ALLOWED"
  shows "\<exists>msg. PGGANGeneratorNet_init res zdim ichan fused base maxf = Inl (ValueError msg)"
  using assms by (simp add: PGGANGeneratorNet_init_def)

text \<open>
  A negative channel count is refused while the layers are built, after the resolution
  has passed its test.
\<close>

lemma init_negative_image_channels:
  "PGGANGeneratorNet_init 8 512 (- 1) False 16384 512
     = Inl (RuntimeError ''Trying to create tensor with negative dimension'')"
proof -
  have "int_log2 4 = 2" "int_log2 8 = 3"
    by (simp_all add: int_log2.simps)
  then show ?thesis
    by (simp add: PGGANGeneratorNet_init_def RESOLUTIONS_ALLOWED_def INIT_RES_def Let_def
                  upto.simps add_block_def ConvBlock_init_def get_nf_def)
qed

text \<open>
  Claim C5. The constructor of the frozen generator raises \<^verbatim>\<open>ValueError\<close> exactly for
  the resolutions outside 8, 16, ..., 1024, whatever its other arguments are; the error
  is the result of the constructor itself, whose first statement is the check, before
  any layer is built. For each of the eight resolutions it returns a network, provided
  the sizes it builds the layers with are positive: \<^verbatim>\<open>z_space_dim\<close>,
  \<^verbatim>\<open>image_channels\<close> and \<^verbatim>\<open>fmaps_max\<close> are positive and \<^verbatim>\<open>fmaps_base\<close> is at
  least the resolution, as the default arguments are.
\<close>

theorem PGGANGeneratorNet_init_resolution:
  "((\<exists>msg. PGGANGeneratorNet_init res zdim ichan fused base maxf = Inl (ValueError msg))
      = (res \<notin> {8, 16, 32, 64, 128, 256, 512, 1024}))
   \<and> (res \<in> {8, 16, 32, 64, 128, 256, 512, 1024}
        \<and> 0 < zdim \<and> 0 < ichan \<and> 0 < maxf \<and> res \<le> base
      \<longrightarrow> (\<exists>net. PGGANGeneratorNet_init res zdim ichan fused base maxf = Inr net))"
proof -
  have first: "(\<exists>msg. PGGANGeneratorNet_init res zdim ichan fused base maxf = Inl (ValueError msg))
                 = (res \<notin> set RESOLUTIONS_ALLOWED)"
    using init_refused [of res zdim ichan fused base maxf]
          init_allowed_no_ValueError [of res zdim ichan fused base maxf]
    by blast
  have second: "\<exists>net. PGGANGeneratorNet_init res zdim ichan fused base maxf = Inr net"
    if "res \<in> set RESOLUTIONS_ALLOWED" and "0 < zdim" and "0 < ichan" and "0 < maxf"
      and "res \<le> base"
  proof -
    have "0 \<le> res" using that(1) by (auto simp: RESOLUTIONS_ALLOWED_def)
    then have "0 \<le> base" using that(5) by simp
    then show ?thesis
      using that by (intro init_allowed) simp_all
  qed
  show ?thesis
    using first second unfolding RESOLUTIONS_ALLOWED_set by blast
qed

theorem PGGANGeneratorNet_init_resolution_witness:
  "(\<exists>net. PGGANGeneratorNet_init 8 512 3 False 16384 512 = Inr net)
   \<and> (\<exists>net. PGGANGeneratorNet_init 16 512 3 False 16384 512 = Inr net)
   \<and> (\<exists>net. PGGANGeneratorNet_init 32 512 3 False 16384 512 = Inr net)
   \<and> (\<exists>net. PGGANGeneratorNet_init 64 512 3 False 16384 512 = Inr net)
   \<and> (\<exists>net. PGGANGeneratorNet_init 128 512 3 False 16384 512 = Inr net)
   \<and> (\<exists>net. PGGANGeneratorNet_init 256 512 3 False 16384 512 = Inr net)
   \<and> (\<exists>net. PGGANGeneratorNet_init 512 512 3 False 16384 512 = Inr net)
   \<and> (\<exists>net. PGGANGeneratorNet_init 1024 512 3 False 16384 512 = Inr net)
   \<and> (\<exists>msg. PGGANGeneratorNet_init 12 512 3 False 16384 512 = Inl (ValueError msg))
   \<and> (\<exists>msg. PGGANGeneratorNet_init 2048 512 3 False 16384 512 = Inl (ValueError msg))"
  using PGGANGeneratorNet_init_resolution [of 8 512 3 False 16384 512]
        PGGANGeneratorNet_init_resolution [of 16 512 3 False 16384 512]
        PGGANGeneratorNet_init_resolution [of 32 512 3 False 16384 512]
        PGGANGeneratorNet_init_resolution [of 64 512 3 False 16384 512]
        PGGANGeneratorNet_init_resolution [of 128 512 3 False 16384 512]
        PGGANGeneratorNet_init_resolution [of 256 512 3 False 16384 512]
        PGGANGeneratorNet_init_resolution [of 512 512 3 False 16384 512]
        PGGANGeneratorNet_init_resolution [of 1024 512 3 False 16384 512]
        PGGANGeneratorNet_init_resolution [of 12 512 3 False 16384 512]
        PGGANGeneratorNet_init_resolution [of 2048 512 3 False 16384 512]
  by simp

subsection \<open>The inversion loop\<close>

lemma length_store_all: "length (store_all h rs vs) = length h"
  by (induction h rs vs rule: store_all.induct) simp_all

lemma store_all_other: "r \<notin> set rs \<Longrightarrow> store_all h rs vs ! r = h ! r"
  by (induction h rs vs rule: store_all.induct) simp_all

lemma length_set_requires_grad: "length (set_requires_grad h rs) = length h"
proof -
  have "length (fold (\<lambda>r h'. h'[r := (h' ! r)\<lparr>requires_grad := True\<rparr>]) rs h) = length h"
    by (induction rs arbitrary: h) simp_all
  then show ?thesis by (simp add: set_requires_grad_def)
qed

lemma iteration_frame:
  assumes "iteration T G gt lf refs opt h = Inr (opt', h')"
  shows "length h' = length h \<and> param_groups opt' = param_groups opt
         \<and> (\<forall>r. r \<notin> set (param_groups opt) \<longrightarrow> h' ! r = h ! r)"
  using assms
  by (auto simp: iteration_def Let_def length_store_all store_all_other
           split: sum.splits prod.splits)

lemma iteration_total:
  assumes "\<And>z. length z = length refs \<Longrightarrow> \<exists>y. gen_forward G z = Inr y"
    and "\<And>y. \<exists>l. lf y gt = Inr l"
  shows "\<exists>res. iteration T G gt lf refs opt h = Inr res"
proof -
  obtain y where y: "gen_forward G (map (\<lambda>r. data (h ! r)) refs) = Inr y"
    using assms(1) [of "map (\<lambda>r. data (h ! r)) refs"] by auto
  obtain l where l: "lf y gt = Inr l"
    using assms(2) by blast
  show ?thesis
    by (simp add: iteration_def Let_def y l split: prod.splits)
qed

lemma deepcopy_items_props:
  assumes "deepcopy_items memo h rs = (cs, h')"
    and "\<forall>r\<in>set rs. r < B" and "B \<le> length h"
    and "\<forall>(r, c)\<in>set memo. r < B \<and> B \<le> c \<and> c < length h \<and> h ! c = h ! r"
  shows "(\<exists>ext. h' = h @ ext) \<and> length cs = length rs
         \<and> (\<forall>c\<in>set cs. B \<le> c \<and> c < length h')
         \<and> map ((!) h') cs = map ((!) h) rs"
  using assms
proof (induction rs arbitrary: memo h cs h')
  case Nil
  then show ?case by simp
next
  case (Cons r rs)
  show ?case
  proof (cases "map_of memo r")
    case (Some c)
    obtain cs0 where rec: "deepcopy_items memo h rs = (cs0, h')" and cs: "cs = c # cs0"
      using Cons.prems(1) Some by (auto split: prod.splits)
    have ih: "(\<exists>ext. h' = h @ ext) \<and> length cs0 = length rs
         \<and> (\<forall>c\<in>set cs0. B \<le> c \<and> c < length h')
         \<and> map ((!) h') cs0 = map ((!) h) rs"
      using Cons.IH [OF rec] Cons.prems by simp
    have "(r, c) \<in> set memo" using Some by (rule map_of_SomeD)
    then have c: "B \<le> c \<and> c < length h \<and> h ! c = h ! r"
      using Cons.prems(4) by auto
    from ih obtain ext where ext: "h' = h @ ext" by blast
    have "h' ! c = h ! r" using c ext by (simp add: nth_append)
    moreover have "c < length h'" using c ext by simp
    ultimately show ?thesis using ih c cs by simp
  next
    case None
    let ?h1 = "h @ [h ! r]"
    obtain cs0 where rec: "deepcopy_items ((r, length h) # memo) ?h1 rs = (cs0, h')"
      and cs: "cs = length h # cs0"
      using Cons.prems(1) None by (auto split: prod.splits)
    have r: "r < B" using Cons.prems(2) by simp
    have memo': "\<forall>(r', c)\<in>set ((r, length h) # memo).
                   r' < B \<and> B \<le> c \<and> c < length ?h1 \<and> ?h1 ! c = ?h1 ! r'"
      using Cons.prems(3,4) r by (auto simp: nth_append)
    have ih: "(\<exists>ext. h' = ?h1 @ ext) \<and> length cs0 = length rs
         \<and> (\<forall>c\<in>set cs0. B \<le> c \<and> c < length h')
         \<and> map ((!) h') cs0 = map ((!) ?h1) rs"
      using Cons.IH [OF rec _ _ memo'] Cons.prems(2,3) by simp
    from ih obtain ext where ext: "h' = ?h1 @ ext" by blast
    have old: "map ((!) ?h1) rs = map ((!) h) rs"
      using Cons.prems(2,3) by (auto simp: nth_append)
    have new: "h' ! length h = h ! r" using ext by (simp add: nth_append)
    have "\<exists>ext. h' = h @ ext" using ext by simp
    moreover have "length h < length h'" using ext by simp
    ultimately show ?thesis using ih cs old new Cons.prems(3) by simp
  qed
qed

lemma deepcopy_props:
  assumes "deepcopy h rs = (cs, h')" and "\<forall>r\<in>set rs. r < length h"
  shows "(\<exists>ext. h' = h @ ext) \<and> length cs = length rs
         \<and> (\<forall>c\<in>set cs. length h \<le> c \<and> c < length h')
         \<and> map ((!) h') cs = map ((!) h) rs"
  using deepcopy_items_props [of "[]" h rs cs h' "length h"] assms
  by (simp add: deepcopy_def)

lemma optimize_loop_add:
  "optimize_loop T G gt lf video refs (a + b) opt hist h =
     (case optimize_loop T G gt lf video refs a opt hist h of
        Inl e \<Rightarrow> Inl e
      | Inr (opt1, hist1, h1) \<Rightarrow> optimize_loop T G gt lf video refs b opt1 hist1 h1)"
  by (induction a arbitrary: opt hist h) (auto split: sum.splits prod.splits)

lemma optimize_loop_total:
  assumes "\<And>z. length z = length refs \<Longrightarrow> \<exists>y. gen_forward G z = Inr y"
    and "\<And>y. \<exists>l. lf y gt = Inr l"
  shows "\<exists>res. optimize_loop T G gt lf video refs n opt hist h = Inr res"
proof (induction n arbitrary: opt hist h)
  case 0
  show ?case by simp
next
  case (Suc n)
  have "\<exists>res. iteration T G gt lf refs opt h = Inr res"
    by (rule iteration_total) (use assms in blast)+
  then obtain opt' h' where "iteration T G gt lf refs opt h = Inr (opt', h')"
    by (metis surj_pair)
  then show ?case using Suc.IH by (cases video) (auto split: prod.splits)
qed

lemma optimize_loop_props:
  assumes "optimize_loop T G gt lf video refs n opt hist h = Inr (opt', hist', h')"
    and "param_groups opt = refs" and "\<forall>r\<in>set refs. r < length h"
  shows "length h \<le> length h' \<and> param_groups opt' = refs
         \<and> (\<forall>r<length h. r \<notin> set refs \<longrightarrow> h' ! r = h ! r)
         \<and> (\<exists>new. hist' = hist @ new \<and> length new = (if video then n else 0)
                \<and> (\<forall>c\<in>set new. \<forall>r\<in>set c. length h \<le> r \<and> r < length h'))"
  using assms
proof (induction n arbitrary: opt hist h)
  case 0
  then show ?case by simp
next
  case (Suc n)
  obtain opt1 h1 where it: "iteration T G gt lf refs opt h = Inr (opt1, h1)"
    using Suc.prems(1) by (auto split: sum.splits)
  have fr: "length h1 = length h" "param_groups opt1 = refs"
    "\<forall>r. r \<notin> set refs \<longrightarrow> h1 ! r = h ! r"
    using iteration_frame [OF it] Suc.prems(2) by simp_all
  show ?case
  proof (cases video)
    case False
    have rec: "optimize_loop T G gt lf video refs n opt1 hist h1 = Inr (opt', hist', h')"
      using Suc.prems(1) it False by simp
    have "\<forall>r\<in>set refs. r < length h1" using Suc.prems(3) fr(1) by simp
    from Suc.IH [OF rec fr(2) this] show ?thesis
      using fr False by auto
  next
    case True
    obtain c h2 where dc: "deepcopy h1 refs = (c, h2)" by (cases "deepcopy h1 refs")
    have rec: "optimize_loop T G gt lf video refs n opt1 (hist @ [c]) h2 = Inr (opt', hist', h')"
      using Suc.prems(1) it True dc by simp
    have v1: "\<forall>r\<in>set refs. r < length h1" using Suc.prems(3) fr(1) by simp
    have d: "(\<exists>ext. h2 = h1 @ ext)" "\<forall>r\<in>set c. length h1 \<le> r \<and> r < length h2"
      using deepcopy_props [OF dc v1] by simp_all
    then obtain ext where ext: "h2 = h1 @ ext" by blast
    have v2: "\<forall>r\<in>set refs. r < length h2" using v1 ext by auto
    have ih: "length h2 \<le> length h' \<and> param_groups opt' = refs
         \<and> (\<forall>r<length h2. r \<notin> set refs \<longrightarrow> h' ! r = h2 ! r)
         \<and> (\<exists>new. hist' = (hist @ [c]) @ new \<and> length new = (if video then n else 0)
                \<and> (\<forall>c\<in>set new. \<forall>r\<in>set c. length h2 \<le> r \<and> r < length h'))"
      using Suc.IH [OF rec fr(2) v2] .
    then obtain new where new: "hist' = (hist @ [c]) @ new" "length new = (if video then n else 0)"
      "\<forall>c\<in>set new. \<forall>r\<in>set c. length h2 \<le> r \<and> r < length h'"
      by blast
    have len: "length h \<le> length h2" using fr(1) ext by simp
    have a: "length h \<le> length h'" using ih len by simp
    have b: "\<forall>r<length h. r \<notin> set refs \<longrightarrow> h' ! r = h ! r"
    proof (intro allI impI)
      fix r assume r: "r < length h" "r \<notin> set refs"
      then have "h' ! r = h2 ! r" using ih len by simp
      also have "\<dots> = h1 ! r" using r fr(1) ext by (simp add: nth_append)
      also have "\<dots> = h ! r" using r fr(3) by simp
      finally show "h' ! r = h ! r" .
    qed
    have c: "hist' = hist @ (c # new)" using new(1) by simp
    have e: "length (c # new) = (if video then Suc n else 0)" using new(2) True by simp
    have f: "\<forall>c'\<in>set (c # new). \<forall>r\<in>set c'. length h \<le> r \<and> r < length h'"
      using new(3) d(2) fr(1) ih len by fastforce
    show ?thesis using a b c e f ih by blast
  qed
qed

lemma optimize_loop_last:
  assumes "optimize_loop T G gt lf True refs (Suc k) opt hist h = Inr (opt', hist', h')"
    and "param_groups opt = refs" and "\<forall>r\<in>set refs. r < length h"
  shows "length hist' = length hist + Suc k
         \<and> map ((!) h') (hist' ! (length hist + k)) = map ((!) h') refs"
proof -
  have "optimize_loop T G gt lf True refs (k + 1) opt hist h = Inr (opt', hist', h')"
    using assms(1) by simp
  then obtain opt1 hist1 h1 where
    first: "optimize_loop T G gt lf True refs k opt hist h = Inr (opt1, hist1, h1)"
    and rest: "optimize_loop T G gt lf True refs 1 opt1 hist1 h1 = Inr (opt', hist', h')"
    unfolding optimize_loop_add by (auto split: sum.splits)
  have p1: "length h \<le> length h1" "param_groups opt1 = refs"
    "\<exists>new. hist1 = hist @ new \<and> length new = k"
    using optimize_loop_props [OF first assms(2,3)] by auto
  have v1: "\<forall>r\<in>set refs. r < length h1" using assms(3) p1(1) by auto
  obtain opt2 h2 where it: "iteration T G gt lf refs opt1 h1 = Inr (opt2, h2)"
    using rest by (auto split: sum.splits)
  have fr: "length h2 = length h1" using iteration_frame [OF it] by simp
  obtain c h3 where dc: "deepcopy h2 refs = (c, h3)" by (cases "deepcopy h2 refs")
  have res: "hist' = hist1 @ [c]" "h' = h3"
    using rest it dc by simp_all
  have v2: "\<forall>r\<in>set refs. r < length h2" using v1 fr by simp
  have d: "\<exists>ext. h3 = h2 @ ext" "map ((!) h3) c = map ((!) h2) refs"
    using deepcopy_props [OF dc v2] by simp_all
  then obtain ext where ext: "h3 = h2 @ ext" by blast
  have "map ((!) h3) refs = map ((!) h2) refs"
    using v2 ext by (auto simp: nth_append)
  then have eq: "map ((!) h') c = map ((!) h') refs" using d(2) res(2) by simp
  have len1: "length hist1 = length hist + k" using p1(3) by auto
  have "hist' ! (length hist + k) = c" using res(1) len1 by (simp add: nth_append)
  then show ?thesis using eq res(1) len1 by simp
qed

lemma new_tensors_valid:
  assumes "new_tensors h vs = (rs, h')"
  shows "length h \<le> length h' \<and> (\<forall>r\<in>set rs. r < length h')"
  using assms
proof (induction vs arbitrary: h rs h')
  case Nil
  then show ?case by simp
next
  case (Cons v vs)
  obtain rs0 where rec: "new_tensors (h @ [\<lparr>data = v, requires_grad = False\<rparr>]) vs = (rs0, h')"
    and rs: "rs = length h # rs0"
    using Cons.prems by (auto simp: new_tensor_def split: prod.splits)
  from Cons.IH [OF rec] show ?case using rs by auto
qed

lemma fill_latents_valid:
  assumes "fill_latents T ty bs sizes acc w = (refs, w')"
    and "\<forall>r\<in>set acc. r < length (heap w)"
  shows "\<forall>r\<in>set refs. r < length (heap w')"
  using assms
proof (induction sizes arbitrary: acc w)
  case Nil
  then show ?case by simp
next
  case (Cons sz sizes)
  show ?case
  proof (cases "ty = ''Zero''")
    case True
    let ?w1 = "w\<lparr>heap := heap w @ [\<lparr>data = torch_zeros T (bs # sz), requires_grad = False\<rparr>]\<rparr>"
    have rec: "fill_latents T ty bs sizes (acc @ [length (heap w)]) ?w1 = (refs, w')"
      using Cons.prems(1) True by (simp add: new_tensor_def)
    have "\<forall>r\<in>set (acc @ [length (heap w)]). r < length (heap ?w1)"
      using Cons.prems(2) by auto
    from Cons.IH [OF rec this] show ?thesis .
  next
    case False
    show ?thesis
    proof (cases "ty = ''Normal''")
      case True
      obtain v g' where rn: "torch_randn T (bs # sz) (rng w) = (v, g')"
        by (cases "torch_randn T (bs # sz) (rng w)")
      let ?w1 = "w\<lparr>heap := heap w @ [\<lparr>data = v, requires_grad = False\<rparr>], rng := g'\<rparr>"
      have rec: "fill_latents T ty bs sizes (acc @ [length (heap w)]) ?w1 = (refs, w')"
        using Cons.prems(1) True False rn by (simp add: new_tensor_def)
      have "\<forall>r\<in>set (acc @ [length (heap w)]). r < length (heap ?w1)"
        using Cons.prems(2) by auto
      from Cons.IH [OF rec this] show ?thesis .
    next
      case other: False
      have rec: "fill_latents T ty bs sizes acc w = (refs, w')"
        using Cons.prems(1) False other by simp
      from Cons.IH [OF rec Cons.prems(2)] show ?thesis .
    qed
  qed
qed

lemma fill_latents_other:
  assumes "ty \<noteq> ''Zero''" and "ty \<noteq> ''Normal''"
  shows "fill_latents T ty bs sizes acc w = (acc, w)"
  using assms by (induction sizes arbitrary: acc w) simp_all

lemma initial_latents_valid:
  assumes "initial_latents T self G bs init_refs w = Inr (refs, w')"
    and "\<forall>r\<in>set init_refs. r < length (heap w)"
  shows "\<forall>r\<in>set refs. r < length (heap w')"
proof (cases "init_refs = []")
  case False
  then have "refs = init_refs \<and> w' = w"
    using assms(1) by (auto simp: initial_latents_def split: if_splits)
  then show ?thesis using assms(2) by simp
next
  case True
  show ?thesis
  proof (cases "gen_init G")
    case False
    then have "fill_latents T (init_type self) bs (gen_input_size G) [] w = (refs, w')"
      using assms(1) True by (simp add: initial_latents_def)
    then show ?thesis using fill_latents_valid by fastforce
  next
    case gi: True
    then obtain vals where "new_tensors (heap w) vals = (refs, heap w')"
      using assms(1) True
      by (auto simp: initial_latents_def split: sum.splits prod.splits)
    then show ?thesis using new_tensors_valid by blast
  qed
qed

lemma initial_latents_iterations:
  "initial_latents T (self\<lparr>iterations := n\<rparr>) G bs init_refs w
     = initial_latents T self G bs init_refs w"
  by (simp add: initial_latents_def)

lemma optimise_of_loop:
  assumes "refs \<noteq> []" and "0 \<le> lr self"
    and "optimize_loop T G gt lf video refs (nat (iterations self))
           \<lparr>opt_class = optimizer self, param_groups = refs, opt_lr = lr self,
            opt_state = optimizer_state0 T\<rparr>
           [] (set_requires_grad (heap w) refs) = Inr (opt', history, h')"
  shows "optimise T self G gt lf video refs w = Inr (refs, history, w\<lparr>heap := h'\<rparr>)"
  using assms by (simp add: optimise_def Optimizer_init_def)

lemma optimise_returns:
  assumes ne: "refs \<noteq> []" and rate: "0 \<le> lr self"
    and fwd: "\<And>z. length z = length refs \<Longrightarrow> \<exists>y. gen_forward G z = Inr y"
    and loss: "\<And>y. \<exists>l. lf y gt = Inr l"
  shows "\<exists>history w'. optimise T self G gt lf video refs w = Inr (refs, history, w')"
proof -
  have "\<exists>res. optimize_loop T G gt lf video refs (nat (iterations self))
           \<lparr>opt_class = optimizer self, param_groups = refs, opt_lr = lr self,
            opt_state = optimizer_state0 T\<rparr>
           [] (set_requires_grad (heap w) refs) = Inr res"
    by (rule optimize_loop_total) (use fwd loss in blast)+
  then obtain opt' history h' where
    "optimize_loop T G gt lf video refs (nat (iterations self))
           \<lparr>opt_class = optimizer self, param_groups = refs, opt_lr = lr self,
            opt_state = optimizer_state0 T\<rparr>
           [] (set_requires_grad (heap w) refs) = Inr (opt', history, h')"
    by (metis surj_pair)
  from optimise_of_loop [OF ne rate this] show ?thesis by blast
qed

lemma optimise_history:
  assumes ret: "optimise T self G gt lf video refs w = Inr (refs', history, w')"
    and valid: "\<forall>r\<in>set refs. r < length (heap w)"
  shows "refs' = refs
         \<and> length history = (if video then nat (iterations self) else 0)
         \<and> (\<forall>k<length history.
               set (history ! k) \<inter> set refs = {}
               \<and> (\<exists>hist_k w_k.
                     optimise T (self\<lparr>iterations := int (Suc k)\<rparr>) G gt lf video refs w
                       = Inr (refs, hist_k, w_k)
                     \<and> map ((!) (heap w')) (history ! k) = map ((!) (heap w_k)) refs))"
proof -
  define opt0 where
    "opt0 = \<lparr>opt_class = optimizer self, param_groups = refs, opt_lr = lr self,
              opt_state = optimizer_state0 T\<rparr>"
  define h1 where "h1 = set_requires_grad (heap w) refs"
  define N where "N = nat (iterations self)"
  have ne: "refs \<noteq> []" and rate: "0 \<le> lr self"
    using ret by (auto simp: optimise_def Optimizer_init_def split: if_splits)
  then have oi: "Optimizer_init (optimizer_state0 T) (optimizer self) refs (lr self) = Inr opt0"
    by (simp add: Optimizer_init_def opt0_def)
  obtain opt' h' where
    run: "optimize_loop T G gt lf video refs N opt0 [] h1 = Inr (opt', history, h')"
    and same: "refs' = refs" and w': "w' = w\<lparr>heap := h'\<rparr>"
    using ret unfolding optimise_def oi h1_def N_def
    by (auto split: sum.splits)
  have pg: "param_groups opt0 = refs" by (simp add: opt0_def)
  have v1: "\<forall>r\<in>set refs. r < length h1"
    using valid by (simp add: h1_def length_set_requires_grad)
  have props: "length history = (if video then N else 0)"
    using optimize_loop_props [OF run pg v1] by auto
  have each: "set (history ! k) \<inter> set refs = {}
              \<and> (\<exists>hist_k w_k.
                    optimise T (self\<lparr>iterations := int (Suc k)\<rparr>) G gt lf video refs w
                      = Inr (refs, hist_k, w_k)
                    \<and> map ((!) h') (history ! k) = map ((!) (heap w_k)) refs)"
    if k: "k < length history" for k
  proof -
    have video: "video" and kN: "k < N"
      using k props by (auto split: if_splits)
    have "optimize_loop T G gt lf video refs (Suc k + (N - Suc k)) opt0 [] h1
            = Inr (opt', history, h')"
      using run kN by simp
    then obtain opt1 hist1 hk where
      first: "optimize_loop T G gt lf video refs (Suc k) opt0 [] h1 = Inr (opt1, hist1, hk)"
      and rest: "optimize_loop T G gt lf video refs (N - Suc k) opt1 hist1 hk
                   = Inr (opt', history, h')"
      unfolding optimize_loop_add by (auto split: sum.splits)
    have p1: "length h1 \<le> length hk" "param_groups opt1 = refs"
      "\<forall>c\<in>set hist1. \<forall>r\<in>set c. length h1 \<le> r \<and> r < length hk"
      using optimize_loop_props [OF first pg v1] by auto
    have l1: "length hist1 = Suc k" "map ((!) hk) (hist1 ! k) = map ((!) hk) refs"
      using optimize_loop_last [of T G gt lf refs k opt0 "[]" h1 opt1 hist1 hk] first pg v1 video
      by auto
    have vk: "\<forall>r\<in>set refs. r < length hk" using v1 p1(1) by auto
    have p2: "\<forall>r<length hk. r \<notin> set refs \<longrightarrow> h' ! r = hk ! r"
      "\<exists>new. history = hist1 @ new"
      using optimize_loop_props [OF rest p1(2) vk] by auto
    have entry: "history ! k = hist1 ! k"
      using p2(2) l1(1) by (auto simp: nth_append)
    have mem: "hist1 ! k \<in> set hist1" using l1(1) by simp
    have fresh: "\<forall>r\<in>set (hist1 ! k). length h1 \<le> r \<and> r < length hk"
      using p1(3) mem by blast
    have disj: "set (history ! k) \<inter> set refs = {}"
      using fresh v1 entry by fastforce
    have "map ((!) h') (hist1 ! k) = map ((!) hk) (hist1 ! k)"
      using fresh v1 p2(1) by fastforce
    then have vals: "map ((!) h') (history ! k) = map ((!) hk) refs"
      using entry l1(2) by simp
    have "optimize_loop T G gt lf video refs (nat (iterations (self\<lparr>iterations := int (Suc k)\<rparr>)))
            \<lparr>opt_class = optimizer (self\<lparr>iterations := int (Suc k)\<rparr>), param_groups = refs,
             opt_lr = lr (self\<lparr>iterations := int (Suc k)\<rparr>), opt_state = optimizer_state0 T\<rparr>
            [] (set_requires_grad (heap w) refs) = Inr (opt1, hist1, hk)"
      using first by (simp add: opt0_def h1_def del: optimize_loop.simps of_nat_Suc)
    then have "optimise T (self\<lparr>iterations := int (Suc k)\<rparr>) G gt lf video refs w
            = Inr (refs, hist1, w\<lparr>heap := hk\<rparr>)"
      using ne rate by (intro optimise_of_loop) simp_all
    then show ?thesis using disj vals by auto
  qed
  show ?thesis
    using same props each by (auto simp: N_def w')
qed

text \<open>
  Claim C3. Whenever \<^verbatim>\<open>invert\<close> returns, the history it returns has the iteration
  count as its length when \<^verbatim>\<open>video\<close> is true and is empty otherwise. No tensor object
  of a history entry is one of the live (returned) latents, so overwriting a live latent
  after the run changes nothing that a history entry reads; and entry \<open>k\<close> holds what
  the live latents hold at the end of the run with \<open>k + 1\<close> iterations, that is, right
  after optimizer step \<open>k + 1\<close>: the later steps have not touched it. (Explicit initial
  latents are tensors of the store the run starts in.)
\<close>

theorem invert_history_snapshots:
  assumes ret: "invert T self G gt_image loss_function batch_size video init_refs w
                   = Inr (latent_estimate, history, w')"
    and valid: "\<forall>r\<in>set init_refs. r < length (heap w)"
  shows "length history = (if video then nat (iterations self) else 0)
         \<and> (\<forall>k<length history.
               set (history ! k) \<inter> set latent_estimate = {}
               \<and> (\<forall>r\<in>set latent_estimate. \<forall>t.
                     map ((!) ((heap w')[r := t])) (history ! k)
                       = map ((!) (heap w')) (history ! k))
               \<and> (\<exists>hist_k w_k.
                     invert T (self\<lparr>iterations := int (Suc k)\<rparr>) G gt_image loss_function
                         batch_size video init_refs w
                       = Inr (latent_estimate, hist_k, w_k)
                     \<and> map ((!) (heap w')) (history ! k)
                         = map ((!) (heap w_k)) latent_estimate))"
proof -
  obtain refs w0 where
    init: "initial_latents T self G batch_size init_refs w = Inr (refs, w0)"
    and opt: "optimise T self G gt_image loss_function video refs w0
                = Inr (latent_estimate, history, w')"
    using ret by (auto simp: invert_def split: sum.splits)
  have v0: "\<forall>r\<in>set refs. r < length (heap w0)"
    using initial_latents_valid [OF init valid] .
  have h: "latent_estimate = refs"
    "length history = (if video then nat (iterations self) else 0)"
    "\<forall>k<length history.
       set (history ! k) \<inter> set refs = {}
       \<and> (\<exists>hist_k w_k.
             optimise T (self\<lparr>iterations := int (Suc k)\<rparr>) G gt_image loss_function
                 video refs w0
               = Inr (refs, hist_k, w_k)
             \<and> map ((!) (heap w')) (history ! k) = map ((!) (heap w_k)) refs)"
    using optimise_history [OF opt v0] by simp_all
  have inv: "invert T (self\<lparr>iterations := n\<rparr>) G gt_image loss_function batch_size video
               init_refs w
             = optimise T (self\<lparr>iterations := n\<rparr>) G gt_image loss_function video refs w0"
    for n
    using init by (simp add: invert_def initial_latents_iterations)
  have frame: "map ((!) ((heap w')[r := t])) (history ! k) = map ((!) (heap w')) (history ! k)"
    if "k < length history" and "r \<in> set refs" for k r t
  proof -
    have "r \<notin> set (history ! k)" using h(3) that by blast
    then have "\<And>x. x \<in> set (history ! k) \<Longrightarrow> (heap w')[r := t] ! x = heap w' ! x"
      by (metis nth_list_update_neq)
    then show ?thesis by simp
  qed
  show ?thesis
    unfolding h(1) using h(2,3) frame inv by simp
qed

theorem invert_history_snapshots_witness:
  "invert toy_torch \<lparr>iterations = 2, lr = 1/4, optimizer = SGD, init_type = ''Zero''\<rparr>
       toy_generator 1 toy_loss 1 True [] \<lparr>heap = [], rng = 0\<rparr>
     = Inr ([0], [[1], [2]],
            \<lparr>heap = [\<lparr>data = 3/4, requires_grad = True\<rparr>, \<lparr>data = 1/2, requires_grad = True\<rparr>,
                     \<lparr>data = 3/4, requires_grad = True\<rparr>], rng = 0\<rparr>)
   \<and> length [[1], [2 :: ref]] = 2
   \<and> set ([[1], [2]] ! 1) \<inter> set [0 :: ref] = {}
   \<and> (\<exists>hist_k w_k.
         invert toy_torch \<lparr>iterations = 1, lr = 1/4, optimizer = SGD, init_type = ''Zero''\<rparr>
             toy_generator 1 toy_loss 1 True [] \<lparr>heap = [], rng = 0\<rparr>
           = Inr ([0], hist_k, w_k)
         \<and> map ((!) [\<lparr>data = 3/4, requires_grad = True\<rparr>, \<lparr>data = 1/2, requires_grad = True\<rparr>,
                     \<lparr>data = 3/4 :: real, requires_grad = True\<rparr>]) ([[1], [2]] ! 0)
             = map ((!) (heap w_k)) [0])"
proof -
  let ?self = "\<lparr>iterations = 2, lr = 1/4, optimizer = SGD, init_type = ''Zero''\<rparr>"
  let ?w = "\<lparr>heap = [] :: real heap, rng = 0 :: nat\<rparr>"
  let ?w' = "\<lparr>heap = [\<lparr>data = 3/4, requires_grad = True\<rparr>, \<lparr>data = 1/2, requires_grad = True\<rparr>,
                     \<lparr>data = 3/4 :: real, requires_grad = True\<rparr>], rng = 0 :: nat\<rparr>"
  have run: "invert toy_torch ?self toy_generator 1 toy_loss 1 True [] ?w
               = Inr ([0], [[1], [2]], ?w')"
    by (simp add: invert_def initial_latents_def toy_generator_def toy_torch_def
                  new_tensor_def optimise_def Optimizer_init_def set_requires_grad_def
                  numeral_2_eq_2 iteration_def py_index_def toy_loss_def deepcopy_def)
  have valid: "\<forall>r\<in>set ([] :: ref list). r < length (heap ?w)" by simp
  note each = invert_history_snapshots [OF run valid, THEN conjunct2, rule_format]
  have len: "length [[1], [2 :: ref]] = 2" by simp
  have k1: "set ([[1], [2]] ! 1) \<inter> set [0 :: ref] = {}"
    using each [of 1] by simp
  have k0: "\<exists>hist_k w_k.
         invert toy_torch (?self\<lparr>iterations := int (Suc 0)\<rparr>)
             toy_generator 1 toy_loss 1 True [] ?w
           = Inr ([0], hist_k, w_k)
         \<and> map ((!) (heap ?w')) ([[1], [2]] ! 0) = map ((!) (heap w_k)) [0]"
    using each [of 0] by simp
  show ?thesis using run len k1 k0 by simp
qed

text \<open>
  The run does return when the latents were initialised to a non-empty list, the
  learning rate is not negative and neither the forward pass (on as many latents) nor
  the loss function raises: the loop itself always ends.
\<close>

theorem invert_returns:
  assumes init: "initial_latents T self G batch_size init_refs w = Inr (latent_estimate, w0)"
    and ne: "latent_estimate \<noteq> []" and rate: "0 \<le> lr self"
    and fwd: "\<And>z. length z = length latent_estimate \<Longrightarrow> \<exists>y. gen_forward G z = Inr y"
    and loss: "\<And>y. \<exists>l. loss_function y gt_image = Inr l"
  shows "\<exists>history w'.
           invert T self G gt_image loss_function batch_size video init_refs w
             = Inr (latent_estimate, history, w')"
proof -
  have "\<exists>history w'. optimise T self G gt_image loss_function video latent_estimate w0
                         = Inr (latent_estimate, history, w')"
    by (rule optimise_returns [OF ne rate]) (use fwd loss in blast)+
  then show ?thesis using init by (simp add: invert_def)
qed

lemma toy_forward_total: "length z = length [0::nat] \<Longrightarrow> \<exists>y. gen_forward toy_generator z = Inr y"
  by (cases z) (simp_all add: toy_generator_def py_index_def)

theorem invert_returns_witness:
  "initial_latents toy_torch \<lparr>iterations = 2, lr = 1/4, optimizer = SGD, init_type = ''Normal''\<rparr>
       toy_generator 1 [] \<lparr>heap = [], rng = 7\<rparr>
     = Inr ([0], \<lparr>heap = [\<lparr>data = 7, requires_grad = False\<rparr>], rng = 8\<rparr>)
   \<and> (\<exists>history w'.
         invert toy_torch \<lparr>iterations = 2, lr = 1/4, optimizer = SGD, init_type = ''Normal''\<rparr>
             toy_generator 1 toy_loss 1 True [] \<lparr>heap = [], rng = 7\<rparr>
           = Inr ([0], history, w'))"
proof -
  have i: "initial_latents toy_torch
             \<lparr>iterations = 2, lr = 1/4, optimizer = SGD, init_type = ''Normal''\<rparr>
             toy_generator 1 [] \<lparr>heap = [], rng = 7\<rparr>
           = Inr ([0], \<lparr>heap = [\<lparr>data = 7, requires_grad = False\<rparr>], rng = 8\<rparr>)"
    by (simp add: initial_latents_def toy_generator_def toy_torch_def new_tensor_def)
  have l: "\<And>y. \<exists>l. toy_loss y 1 = Inr l"
    by (simp add: toy_loss_def)
  show ?thesis
    using i invert_returns
            [where loss_function = toy_loss and gt_image = 1 and video = True,
             OF i _ _ toy_forward_total l]
    by simp
qed

text \<open>
  Claim C6. With explicit initial latents (a non-empty \<^verbatim>\<open>*init\<close>), a count that
  differs from the length of \<^verbatim>\<open>input_size()\<close> fails with the \<^verbatim>\<open>AssertionError\<close> of
  line 44, whatever the generator, the loss and the iteration count are (nothing of the
  loop has run); an equal count goes on to the rest of \<^verbatim>\<open>invert\<close> with
  \<^verbatim>\<open>latent_estimate = init\<close>.
\<close>

theorem invert_explicit_init_count:
  assumes "init_refs \<noteq> []"
  shows "(length init_refs \<noteq> length (gen_input_size G) \<longrightarrow>
            invert T self G gt_image loss_function batch_size video init_refs w
              = Inl (AssertionError ''Please check the number of init value''))
         \<and> (length init_refs = length (gen_input_size G) \<longrightarrow>
            invert T self G gt_image loss_function batch_size video init_refs w
              = optimise T self G gt_image loss_function video init_refs w)"
  using assms by (simp add: invert_def initial_latents_def)

theorem invert_explicit_init_count_witness:
  "[0, 0] \<noteq> ([] :: ref list) \<and> length [0 :: ref, 0] \<noteq> length (gen_input_size toy_generator)
   \<and> invert toy_torch \<lparr>iterations = 2, lr = 1/4, optimizer = SGD, init_type = ''Zero''\<rparr>
        toy_generator 1 toy_loss 1 True [0, 0]
        \<lparr>heap = [\<lparr>data = 5, requires_grad = False\<rparr>], rng = 0\<rparr>
      = Inl (AssertionError ''Please check the number of init value'')
   \<and> [0] \<noteq> ([] :: ref list) \<and> length [0 :: ref] = length (gen_input_size toy_generator)
   \<and> invert toy_torch \<lparr>iterations = 2, lr = 1/4, optimizer = SGD, init_type = ''Zero''\<rparr>
        toy_generator 1 toy_loss 1 True [0]
        \<lparr>heap = [\<lparr>data = 5, requires_grad = False\<rparr>], rng = 0\<rparr>
      = optimise toy_torch \<lparr>iterations = 2, lr = 1/4, optimizer = SGD, init_type = ''Zero''\<rparr>
          toy_generator 1 toy_loss True [0]
          \<lparr>heap = [\<lparr>data = 5, requires_grad = False\<rparr>], rng = 0\<rparr>"
  using invert_explicit_init_count
          [where init_refs = "[0, 0]" and G = toy_generator and T = toy_torch
             and self = "\<lparr>iterations = 2, lr = 1/4, optimizer = SGD, init_type = ''Zero''\<rparr>"
             and gt_image = 1 and loss_function = toy_loss and batch_size = 1 and video = True
             and w = "\<lparr>heap = [\<lparr>data = 5, requires_grad = False\<rparr>], rng = 0\<rparr>"]
        invert_explicit_init_count
          [where init_refs = "[0]" and G = toy_generator and T = toy_torch
             and self = "\<lparr>iterations = 2, lr = 1/4, optimizer = SGD, init_type = ''Zero''\<rparr>"
             and gt_image = 1 and loss_function = toy_loss and batch_size = 1 and video = True
             and w = "\<lparr>heap = [\<lparr>data = 5, requires_grad = False\<rparr>], rng = 0\<rparr>"]
  by (simp add: toy_generator_def)

text \<open>
  Claim C9, as amended. With no explicit initial latents, a generator whose \<^verbatim>\<open>init\<close>
  is \<^verbatim>\<open>False\<close> and an \<^verbatim>\<open>init_type\<close> that is neither \<^verbatim>\<open>'Zero'\<close> nor \<^verbatim>\<open>'Normal'\<close>,
  \<^verbatim>\<open>latent_estimate\<close> is bound to the empty list and no tensor is created; the
  optimizer's constructor then raises \<^verbatim>\<open>ValueError\<close>, before any iteration.
\<close>

theorem invert_unknown_init_type:
  assumes "gen_init G = False" and "init_type self \<noteq> ''Zero''" and "init_type self \<noteq> ''Normal''"
  shows "initial_latents T self G batch_size [] w = Inr ([], w)
         \<and> invert T self G gt_image loss_function batch_size video [] w
             = Inl (ValueError (if lr self < 0 then ''Invalid learning rate''
                                else ''optimizer got an empty parameter list''))"
proof -
  have "initial_latents T self G batch_size [] w = Inr ([], w)"
    using assms by (simp add: initial_latents_def fill_latents_other)
  then show ?thesis
    by (simp add: invert_def optimise_def Optimizer_init_def)
qed

theorem invert_unknown_init_type_witness:
  "gen_init toy_generator = False \<and> ''Uniform'' \<noteq> ''Zero'' \<and> ''Uniform'' \<noteq> ''Normal''
   \<and> initial_latents toy_torch
        \<lparr>iterations = 2, lr = 1/4, optimizer = SGD, init_type = ''Uniform''\<rparr>
        toy_generator 1 [] \<lparr>heap = [], rng = 0\<rparr> = Inr ([], \<lparr>heap = [], rng = 0\<rparr>)
   \<and> invert toy_torch \<lparr>iterations = 2, lr = 1/4, optimizer = SGD, init_type = ''Uniform''\<rparr>
        toy_generator 1 toy_loss 1 False [] \<lparr>heap = [], rng = 0\<rparr>
      = Inl (ValueError ''optimizer got an empty parameter list'')"
  using invert_unknown_init_type
          [where G = toy_generator and T = toy_torch
             and self = "\<lparr>iterations = 2, lr = 1/4, optimizer = SGD, init_type = ''Uniform''\<rparr>"
             and batch_size = 1 and w = "\<lparr>heap = [], rng = 0\<rparr>" and gt_image = 1
             and loss_function = toy_loss and video = False]
  by (simp add: toy_generator_def)

text \<open>
  Claim C9, as stated, fails: with \<^verbatim>\<open>init_type = 'Uniform'\<close> the run ends in the
  optimizer's \<^verbatim>\<open>ValueError\<close>, not in an \<^verbatim>\<open>UnboundLocalError\<close>.
\<close>

theorem invert_unknown_init_type_not_unbound:
  "invert toy_torch \<lparr>iterations = 3000, lr = 1, optimizer = Adam, init_type = ''Uniform''\<rparr>
        toy_generator 1 toy_loss 1 False [] \<lparr>heap = [], rng = 0\<rparr>
      = Inl (ValueError ''optimizer got an empty parameter list'')
   \<and> \<not> raises_UnboundLocalError
         (invert toy_torch \<lparr>iterations = 3000, lr = 1, optimizer = Adam, init_type = ''Uniform''\<rparr>
            toy_generator 1 toy_loss 1 False [] \<lparr>heap = [], rng = 0\<rparr>)"
proof -
  have "invert toy_torch \<lparr>iterations = 3000, lr = 1, optimizer = Adam, init_type = ''Uniform''\<rparr>
          toy_generator 1 toy_loss 1 False [] \<lparr>heap = [], rng = 0\<rparr>
        = Inl (ValueError ''optimizer got an empty parameter list'')"
    by (simp add: invert_def initial_latents_def toy_generator_def optimise_def
                  Optimizer_init_def)
  then show ?thesis by simp
qed

subsection \<open>Tensors, the normalization layer and the multi-code wrapper\<close>

lemma sequence_tab:
  assumes "\<And>i. i < n \<Longrightarrow> f i = Inr (g i)"
  shows "sequence (map f [0..<n]) = Inr (map g [0..<n])"
  using assms
proof (induction n)
  case 0
  show ?case by simp
next
  case (Suc n)
  have "sequence (xs @ [Inr v]) = (case sequence xs of Inl e \<Rightarrow> Inl e | Inr vs \<Rightarrow> Inr (vs @ [v]))"
    for xs :: "(error + 'a) list" and v
    by (induction xs) (auto split: sum.splits)
  then show ?case using Suc by simp
qed

lemma broadcast_same:
  assumes "\<And>i. i < n \<Longrightarrow> F (f i) (g i) = Inr (r i)"
  shows "broadcast F (map f [0..<n]) (map g [0..<n]) = Inr (map r [0..<n])"
proof -
  have "map2 F (map f [0..<n]) (map g [0..<n]) = map (\<lambda>i. F (f i) (g i)) [0..<n]"
    by (induction n) simp_all
  then show ?thesis
    using sequence_tab [of n "\<lambda>i. F (f i) (g i)" r] assms by (simp add: broadcast_def)
qed

lemma broadcast_right1:
  assumes "\<And>i. i < n \<Longrightarrow> F (f i) y = Inr (r i)"
  shows "broadcast F (map f [0..<n]) [y] = Inr (map r [0..<n])"
proof (cases "n = 1")
  case True
  then show ?thesis using assms [of 0] by (simp add: broadcast_def)
next
  case False
  then show ?thesis
    using sequence_tab [of n "\<lambda>i. F (f i) y" r] assms by (simp add: broadcast_def comp_def)
qed

lemma tab_nth: "length xs = n \<Longrightarrow> xs = map (\<lambda>i. xs ! i) [0..<n]"
  by (auto simp: list_eq_iff_nth_eq)

lemma has_shape2_tab:
  assumes "has_shape2 t a b"
  shows "t = tab2 a b (\<lambda>i j. t ! i ! j)"
proof -
  have "length t = a" and "\<And>i. i < a \<Longrightarrow> length (t ! i) = b"
    using assms by (auto simp: has_shape2_def)
  then show ?thesis
    unfolding tab2_def by (auto simp: list_eq_iff_nth_eq)
qed

lemma has_shape3_tab:
  assumes "has_shape3 t a b c"
  shows "t = tab3 a b c (\<lambda>i j k. t ! i ! j ! k)"
proof -
  have "length t = a" and "\<And>i. i < a \<Longrightarrow> has_shape2 (t ! i) b c"
    using assms by (auto simp: has_shape3_def)
  then have "length t = a" and "\<And>i. i < a \<Longrightarrow> t ! i = tab2 b c (\<lambda>j k. t ! i ! j ! k)"
    using has_shape2_tab by blast+
  then show ?thesis
    unfolding tab3_def by (auto simp: list_eq_iff_nth_eq)
qed

lemma has_shape4_tab:
  assumes "has_shape4 t a b c d"
  shows "t = tab4 a b c d (\<lambda>i j k l. t ! i ! j ! k ! l)"
proof -
  have "length t = a" and "\<And>i. i < a \<Longrightarrow> has_shape3 (t ! i) b c d"
    using assms by (auto simp: has_shape4_def)
  then have "length t = a" and "\<And>i. i < a \<Longrightarrow> t ! i = tab3 b c d (\<lambda>j k l. t ! i ! j ! k ! l)"
    using has_shape3_tab by blast+
  then show ?thesis
    unfolding tab4_def by (auto simp: list_eq_iff_nth_eq)
qed

lemma has_shape_tab2: "has_shape2 (tab2 a b f) a b"
  by (auto simp: has_shape2_def tab2_def)

lemma has_shape_tab3: "has_shape3 (tab3 a b c f) a b c"
  by (auto simp: has_shape3_def tab3_def has_shape_tab2)

lemma has_shape_tab4: "has_shape4 (tab4 a b c d f) a b c d"
  by (auto simp: has_shape4_def tab4_def has_shape_tab3)

lemma tab4_nth:
  "i < a \<Longrightarrow> j < b \<Longrightarrow> k < c \<Longrightarrow> l < d \<Longrightarrow> tab4 a b c d f ! i ! j ! k ! l = f i j k l"
  by (simp add: tab4_def tab3_def tab2_def)

lemma tab2_cong:
  "(\<And>i j. i < a \<Longrightarrow> j < b \<Longrightarrow> f i j = g i j) \<Longrightarrow> tab2 a b f = tab2 a b g"
  by (simp add: tab2_def)

lemma tab3_cong:
  "(\<And>i j k. i < a \<Longrightarrow> j < b \<Longrightarrow> k < c \<Longrightarrow> f i j k = g i j k) \<Longrightarrow> tab3 a b c f = tab3 a b c g"
  by (simp add: tab3_def tab2_def)

lemma tab4_cong:
  "(\<And>i j k l. i < a \<Longrightarrow> j < b \<Longrightarrow> k < c \<Longrightarrow> l < d \<Longrightarrow> f i j k l = g i j k l)
     \<Longrightarrow> tab4 a b c d f = tab4 a b c d g"
  by (simp add: tab4_def tab3_def tab2_def)

lemma map4_tab4: "map4 g (tab4 a b c d f) = tab4 a b c d (\<lambda>i j k l. g (f i j k l))"
  by (simp add: map4_def tab4_def tab3_def tab2_def comp_def)

lemma pointwise4_same:
  "pointwise4 op (tab4 a b c d f) (tab4 a b c d g)
     = Inr (tab4 a b c d (\<lambda>i j k l. op (f i j k l) (g i j k l)))"
  unfolding pointwise4_def tab4_def tab3_def tab2_def
  by (intro broadcast_same) simp

lemma pointwise4_channel1:
  "pointwise4 op (tab4 a b c d f) (tab4 a 1 c d g)
     = Inr (tab4 a b c d (\<lambda>i j k l. op (f i j k l) (g i 0 k l)))"
  unfolding pointwise4_def tab4_def tab3_def tab2_def
  by (intro broadcast_same) (simp, intro broadcast_right1 broadcast_same, simp)

lemma pointwise4_spatial1:
  "pointwise4 op (tab4 a b c d f) (tab4 a b 1 1 g)
     = Inr (tab4 a b c d (\<lambda>i j k l. op (f i j k l) (g i j 0 0)))"
  unfolding pointwise4_def tab4_def tab3_def tab2_def
  by (intro broadcast_same) (simp, intro broadcast_right1, simp)

lemma sum_list_channels:
  assumes "k < c" and "l < d"
  shows "sum_list (map (\<lambda>ch. ch ! k ! l) (tab3 b c d f)) = (\<Sum>j<b. f j k l)"
proof -
  have "map (\<lambda>ch. ch ! k ! l) (tab3 b c d f) = map (\<lambda>j. f j k l) [0..<b]"
    using assms by (simp add: tab3_def tab2_def)
  then show ?thesis
    by (simp add: interv_sum_list_conv_sum_set_nat atLeast0LessThan)
qed

lemma mean_dim1_tab4:
  assumes "0 < b"
  shows "mean_dim1 (tab4 a b c d f) = tab4 a 1 c d (\<lambda>i j k l. (\<Sum>j'<b. f i j' k l) / real b)"
proof -
  have sample: "[tab2 (height (tab3 b c d g)) (width (tab3 b c d g))
                   (\<lambda>h w. sum_list (map (\<lambda>ch. ch ! h ! w) (tab3 b c d g))
                            / real (length (tab3 b c d g)))]
                = tab3 1 c d (\<lambda>j k l. (\<Sum>j'<b. g j' k l) / real b)" for g
  proof -
    obtain b' where b': "b = Suc b'" using assms by (cases b) auto
    have len: "length (tab3 b c d g) = b" by (simp add: tab3_def)
    have hd: "tab3 b c d g = tab2 c d (g 0) # map (\<lambda>i. tab2 c d (g i)) [1..<b]"
      unfolding tab3_def b' by (simp add: upt_conv_Cons del: upt_Suc)
    have h: "height (tab3 b c d g) = c"
      by (simp add: hd height_def tab2_def)
    have w: "c = 0 \<or> width (tab3 b c d g) = d"
    proof (cases c)
      case 0
      then show ?thesis by simp
    next
      case (Suc c')
      then have "tab2 c d (g 0) = map (g 0 0) [0..<d] # map (\<lambda>i. map (g 0 i) [0..<d]) [1..<c]"
        unfolding tab2_def by (simp add: upt_conv_Cons del: upt_Suc)
      then show ?thesis by (simp add: hd width_def)
    qed
    have "tab2 c (width (tab3 b c d g))
            (\<lambda>h w. sum_list (map (\<lambda>ch. ch ! h ! w) (tab3 b c d g)) / real b)
          = tab2 c d (\<lambda>k l. (\<Sum>j'<b. g j' k l) / real b)"
    proof (cases "c = 0")
      case True
      then show ?thesis by (simp add: tab2_def)
    next
      case False
      then have wd: "width (tab3 b c d g) = d" using w by simp
      show ?thesis
        unfolding wd by (rule tab2_cong) (simp add: sum_list_channels)
    qed
    moreover have "tab3 1 c d F = [tab2 c d (F 0)]" for F :: "nat \<Rightarrow> nat \<Rightarrow> nat \<Rightarrow> real"
      by (simp add: tab3_def)
    ultimately show ?thesis unfolding h len by simp
  qed
  show ?thesis
    unfolding mean_dim1_def tab4_def by (simp add: sample)
qed

text \<open>
  Claim C8, as amended. On an input of shape \<open>(B, C, H, W)\<close> with at least one channel,
  the pixel-wise normalization returns, at every batch index, channel and spatial
  position, the input value divided by the square root of (the mean over the channels of
  the squared values at that position, plus epsilon): the stabilizing constant is added
  under the root.
\<close>

theorem PixelNormLayer_forward_formula:
  assumes "has_shape4 x B C H W" and "0 < C"
  shows "PixelNormLayer_forward self x
           = Inr (tab4 B C H W (\<lambda>b c h w.
                    x ! b ! c ! h ! w
                      / sqrt ((\<Sum>c'<C. (x ! b ! c' ! h ! w)\<^sup>2) / real C + eps self)))"
proof -
  define X where "X = (\<lambda>b c h w. x ! b ! c ! h ! w)"
  have x: "x = tab4 B C H W X"
    using has_shape4_tab [OF assms(1)] by (simp add: X_def)
  have "PixelNormLayer_forward self (tab4 B C H W X)
          = Inr (tab4 B C H W (\<lambda>b c h w.
                   X b c h w / sqrt ((\<Sum>c'<C. (X b c' h w)\<^sup>2) / real C + eps self)))"
    unfolding PixelNormLayer_forward_def map4_tab4 mean_dim1_tab4 [OF assms(2)]
              pointwise4_channel1
    by (rule refl)
  then show ?thesis
    unfolding x [symmetric] by (simp add: X_def)
qed

lemma sqrt_square_101: "sqrt ((101 / 200000)\<^sup>2) = 101 / 200000"
  by (simp only: real_sqrt_abs)

theorem PixelNormLayer_forward_formula_witness:
  "has_shape4 [[[[99 / 200000 :: real]], [[99 / 200000]]]] 1 2 1 1 \<and> (0 :: nat) < 2
   \<and> PixelNormLayer_forward (PixelNormLayer_init (1 / 10 ^ 8))
        [[[[99 / 200000]], [[99 / 200000]]]]
       = Inr [[[[99 / 101]], [[99 / 101]]]]"
proof -
  let ?x = "[[[[99 / 200000 :: real]], [[99 / 200000]]]]"
  let ?L = "PixelNormLayer_init (1 / 10 ^ 8)"
  have sh: "has_shape4 ?x 1 2 1 1"
    by (simp add: has_shape4_def has_shape3_def has_shape2_def)
  have t: "tab4 1 2 1 1 f = [[[[f 0 0 0 0]], [[f 0 1 0 0]]]]"
    for f :: "nat \<Rightarrow> nat \<Rightarrow> nat \<Rightarrow> nat \<Rightarrow> real"
    by (simp add: tab4_def tab3_def tab2_def numeral_2_eq_2)
  have two: "{..<2::nat} = {0, 1}" by auto
  have arg: "(\<Sum>c'<2. (?x ! 0 ! c' ! 0 ! 0)\<^sup>2) / real 2 + eps ?L = (101 / 200000)\<^sup>2"
    by (simp add: two PixelNormLayer_init_def power2_eq_square)
  have "PixelNormLayer_forward ?L ?x
          = Inr [[[[?x ! 0 ! 0 ! 0 ! 0 / (101 / 200000)]], [[?x ! 0 ! 1 ! 0 ! 0 / (101 / 200000)]]]]"
    using PixelNormLayer_forward_formula [OF sh, of ?L]
    unfolding t arg sqrt_square_101 by simp
  then show ?thesis using sh by simp
qed

lemma PixelNormLayer_forward_single:
  "PixelNormLayer_forward (PixelNormLayer_init e) [[[[p]]]] = Inr [[[[p / sqrt (p\<^sup>2 / 1 + e)]]]]"
  by (simp add: PixelNormLayer_forward_def PixelNormLayer_init_def pointwise4_def
                broadcast_def map4_def mean_dim1_def tab2_def height_def width_def)

text \<open>
  Claim C8, as stated, fails: for the one-pixel, one-channel input \<open>4.95e-4\<close> and
  epsilon \<open>1e-8\<close> the layer returns \<open>99/101\<close>, not the input divided by (the root of the
  mean square, plus epsilon), which is \<open>49500/49501\<close>.
\<close>

theorem PixelNormLayer_eps_inside_sqrt:
  "PixelNormLayer_forward (PixelNormLayer_init (1 / 10 ^ 8)) [[[[99 / 200000]]]]
     = Inr [[[[99 / 101]]]]
   \<and> PixelNormLayer_forward (PixelNormLayer_init (1 / 10 ^ 8)) [[[[99 / 200000]]]]
     \<noteq> Inr [[[[(99 / 200000) / (sqrt ((99 / 200000)\<^sup>2 / 1) + 1 / 10 ^ 8)]]]]"
proof -
  have "(99 / 200000 :: real)\<^sup>2 / 1 + 1 / 10 ^ 8 = (101 / 200000)\<^sup>2"
    by (simp add: power2_eq_square)
  then have "PixelNormLayer_forward (PixelNormLayer_init (1 / 10 ^ 8)) [[[[99 / 200000]]]]
               = Inr [[[[(99 / 200000) / (101 / 200000)]]]]"
    unfolding PixelNormLayer_forward_single by (simp only: sqrt_square_101)
  then have out: "PixelNormLayer_forward (PixelNormLayer_init (1 / 10 ^ 8)) [[[[99 / 200000]]]]
               = Inr [[[[99 / 101]]]]"
    by simp
  have s: "sqrt ((99 / 200000 :: real)\<^sup>2 / 1) = 99 / 200000"
    by (simp only: div_by_1 real_sqrt_abs)
  have "(99 / 200000) / (sqrt ((99 / 200000)\<^sup>2 / 1) + 1 / 10 ^ 8) = (49500 / 49501 :: real)"
    unfolding s by simp
  then have "Inr [[[[(99 / 200000) / (sqrt ((99 / 200000)\<^sup>2 / 1) + 1 / 10 ^ 8)]]]]
               \<noteq> (Inr [[[[99 / 101 :: real]]]] :: error + t4)"
    by (simp only:) simp
  with out show ?thesis by metis
qed

text \<open>
  Claim C2. For every \<^verbatim>\<open>z_number\<close> of at least 1 and every batch size,
  \<^verbatim>\<open>init_value\<close> returns two tensors: \<^verbatim>\<open>z_estimate\<close> of shape
  \<open>(batch_size, z_number, z_dim)\<close> and \<^verbatim>\<open>z_alpha\<close> of shape
  \<open>(batch_size, z_number, layer_c_number)\<close>, every element of which is \<open>1 / z_number\<close>.
\<close>

theorem init_value_equal_weights:
  assumes "1 \<le> z_number self"
  shows "\<exists>z_estimate z_alpha pos'.
           PGGAN_multi_z_init_value samples self batch_size pos
             = Inr ([z_estimate, z_alpha], pos')
           \<and> has_shape3 z_estimate batch_size (z_number self) (z_dim self)
           \<and> has_shape3 z_alpha batch_size (z_number self) (layer_c_number self)
           \<and> (\<forall>b<batch_size. \<forall>j<z_number self. \<forall>c<layer_c_number self.
                 z_alpha ! b ! j ! c = 1 / real (z_number self))"
proof -
  let ?z = "fst (randn3 samples batch_size (z_number self) (z_dim self) pos)"
  let ?a = "full3 batch_size (z_number self) (layer_c_number self) (1 / real (z_number self))"
  have "PGGAN_multi_z_init_value samples self batch_size pos
          = Inr ([?z, ?a], snd (randn3 samples batch_size (z_number self) (z_dim self) pos))"
    using assms by (simp add: PGGAN_multi_z_init_value_def Let_def split: prod.splits)
  moreover have "has_shape3 ?z batch_size (z_number self) (z_dim self)"
    by (simp add: randn3_def has_shape_tab3)
  moreover have "has_shape3 ?a batch_size (z_number self) (layer_c_number self)"
    by (simp add: full3_def has_shape3_def has_shape2_def)
  moreover have "\<forall>b<batch_size. \<forall>j<z_number self. \<forall>c<layer_c_number self.
                   ?a ! b ! j ! c = 1 / real (z_number self)"
    by (simp add: full3_def)
  ultimately show ?thesis by blast
qed

theorem init_value_equal_weights_witness:
  "(1 :: nat) \<le> 3
   \<and> PGGAN_multi_z_init_value (\<lambda>n. real n)
        \<lparr>blending_layer = 6, z_number = 3, z_dim = 2, mz_pggan = (), pre_model = [] :: unit list,
         post_model = [], mz_init = True, mask_size = (8, 8), layer_c_number = 2\<rparr> 1 0
       = Inr ([[[[0, 1], [2, 3], [4, 5]]], [[[1 / 3, 1 / 3], [1 / 3, 1 / 3], [1 / 3, 1 / 3]]]], 6)"
proof -
  have "PGGAN_multi_z_init_value (\<lambda>n. real n)
        \<lparr>blending_layer = 6, z_number = 3, z_dim = 2, mz_pggan = (), pre_model = [] :: unit list,
         post_model = [], mz_init = True, mask_size = (8, 8), layer_c_number = 2\<rparr> 1 0
       = Inr ([[[[0, 1], [2, 3], [4, 5]]], [[[1 / 3, 1 / 3], [1 / 3, 1 / 3], [1 / 3, 1 / 3]]]], 6)"
    by (simp add: PGGAN_multi_z_init_value_def randn3_def full3_def tab3_def tab2_def
                  numeral_2_eq_2 numeral_3_eq_3)
  then show ?thesis
    using init_value_equal_weights
            [where self = "\<lparr>blending_layer = 6, z_number = 3, z_dim = 2, mz_pggan = (),
                             pre_model = [] :: unit list, post_model = [], mz_init = True,
                             mask_size = (8, 8), layer_c_number = 2\<rparr>"
               and samples = "\<lambda>n. real n" and batch_size = 1 and pos = 0]
    by simp
qed

lemma select_dim1_tab3:
  assumes "j < b"
  shows "select_dim1 (tab3 a b c f) j = Inr (tab2 a c (\<lambda>i k. f i j k))"
  using assms by (simp add: select_dim1_def tab3_def tab2_def)

lemma view_channels_tab2:
  assumes "0 < d"
  shows "view_channels d (tab2 a d f) = Inr (tab4 a d 1 1 (\<lambda>i k h w. f i k))"
  using assms by (simp add: view_channels_def tab4_def tab3_def tab2_def)

lemma feature_maps_loop_all:
  assumes "\<And>j. j \<in> set js \<Longrightarrow> f j = Inr (g j)"
  shows "feature_maps_loop f js acc = Inr (acc @ map g js)"
  using assms by (induction js arbitrary: acc) simp_all

lemma sum_from_tab4:
  "sum_from (tab4 a b c d f) (map (\<lambda>j. tab4 a b c d (G j)) js)
     = Inr (tab4 a b c d (\<lambda>i k h w. f i k h w + (\<Sum>j\<leftarrow>js. G j i k h w)))"
proof (induction js arbitrary: f)
  case Nil
  show ?case by simp
next
  case (Cons j js)
  show ?case
    by (simp add: pointwise4_same Cons.IH add.assoc)
qed

text \<open>
  Claim C1. Let \<^verbatim>\<open>z_estimate\<close> and \<^verbatim>\<open>alpha_estimate\<close> have the declared shapes
  \<open>(B, z_number, z_dim)\<close> and \<open>(B, z_number, layer_c_number)\<close> with \<^verbatim>\<open>z_number\<close> at least
  1, and let the pre-stage map the \<open>j\<close>-th latent, reshaped to \<open>(B, z_dim, 1, 1)\<close>, to
  a feature map \<open>F j\<close> of shape \<open>(B, layer_c_number, H, W)\<close>. Then the fused feature
  map is, at every index, the sum over \<open>j\<close> of \<open>F j\<close> times the \<open>j\<close>-th weight of that
  channel, divided by \<^verbatim>\<open>z_number\<close>; and the forward pass is the post-stage applied to
  it.
\<close>

theorem fused_feature_map_mean:
  assumes n: "1 \<le> z_number self" and zd: "0 < z_dim self" and cd: "0 < layer_c_number self"
    and zs: "has_shape3 z_estimate B (z_number self) (z_dim self)"
    and as: "has_shape3 alpha_estimate B (z_number self) (layer_c_number self)"
    and pre: "\<And>j. j < z_number self \<Longrightarrow>
                Sequential call (pre_model self)
                    (tab4 B (z_dim self) 1 1 (\<lambda>b k h w. z_estimate ! b ! j ! k)) = Inr (F j)
                \<and> has_shape4 (F j) B (layer_c_number self) H W"
  shows "fused_feature_map call self z_estimate alpha_estimate
           = Inr (tab4 B (layer_c_number self) H W (\<lambda>b c h w.
                    (\<Sum>j<z_number self. F j ! b ! c ! h ! w * alpha_estimate ! b ! j ! c)
                      / real (z_number self)))
         \<and> PGGAN_multi_z_forward call self [z_estimate, alpha_estimate]
           = Sequential call (post_model self)
               (tab4 B (layer_c_number self) H W (\<lambda>b c h w.
                    (\<Sum>j<z_number self. F j ! b ! c ! h ! w * alpha_estimate ! b ! j ! c)
                      / real (z_number self)))"
proof -
  define N where "N = z_number self"
  define D where "D = z_dim self"
  define C where "C = layer_c_number self"
  define Z where "Z = (\<lambda>b j k. z_estimate ! b ! j ! k)"
  define A where "A = (\<lambda>b j c. alpha_estimate ! b ! j ! c)"
  define X where "X = (\<lambda>j b c h w. F j ! b ! c ! h ! w)"
  define G where "G = (\<lambda>j b c h w. X j b c h w * A b j c)"
  have z: "z_estimate = tab3 B N D Z"
    using has_shape3_tab [OF zs] by (simp add: N_def D_def Z_def)
  have a: "alpha_estimate = tab3 B N C A"
    using has_shape3_tab [OF as] by (simp add: N_def C_def A_def)
  have run: "Sequential call (pre_model self) (tab4 B D 1 1 (\<lambda>b k h w. Z b j k))
               = Inr (tab4 B C H W (X j))" if "j < N" for j
  proof -
    have "F j = tab4 B C H W (X j)"
      using pre [of j] that has_shape4_tab [of "F j" B C H W] by (simp add: N_def C_def X_def)
    then show ?thesis
      using pre [of j] that by (simp add: N_def D_def Z_def)
  qed
  have wfm: "weighted_feature_map call self z_estimate alpha_estimate j
               = Inr (tab4 B C H W (G j))" if "j < N" for j
  proof -
    have "weighted_feature_map call self (tab3 B N D Z) (tab3 B N C A) j
            = Inr (tab4 B C H W (\<lambda>b c h w. X j b c h w * A b j c))"
      unfolding weighted_feature_map_def
      using that zd cd
      by (simp add: select_dim1_tab3 view_channels_tab2 run pointwise4_spatial1
                    D_def [symmetric] C_def [symmetric] del: One_nat_def)
    then show ?thesis by (simp add: z a G_def)
  qed
  have loop: "feature_maps_loop (weighted_feature_map call self z_estimate alpha_estimate)
                [0..<N] [] = Inr (map (\<lambda>j. tab4 B C H W (G j)) [0..<N])"
    using feature_maps_loop_all [of "[0..<N]" _ "\<lambda>j. tab4 B C H W (G j)" "[]"] wfm by simp
  have split: "[0..<N] = 0 # [1..<N]"
    using n by (simp add: N_def upt_conv_Cons)
  have total: "0 + G 0 b c h w + (\<Sum>j\<leftarrow>[1..<N]. G j b c h w) = (\<Sum>j<N. G j b c h w)"
    for b c h w
  proof -
    have "(\<Sum>j<N. G j b c h w) = (\<Sum>j\<leftarrow>[0..<N]. G j b c h w)"
      by (simp add: interv_sum_list_conv_sum_set_nat atLeast0LessThan)
    also have "\<dots> = G 0 b c h w + (\<Sum>j\<leftarrow>[1..<N]. G j b c h w)"
      by (subst split) simp
    finally show ?thesis by simp
  qed
  have sum: "sum_from (tab4 B C H W (\<lambda>b c h w. 0 + G 0 b c h w))
               (map (\<lambda>j. tab4 B C H W (G j)) [1..<N])
             = Inr (tab4 B C H W (\<lambda>b c h w. \<Sum>j<N. G j b c h w))"
    unfolding sum_from_tab4 total by (rule refl)
  have fused: "fused_feature_map call self z_estimate alpha_estimate
                 = Inr (tab4 B C H W (\<lambda>b c h w. (\<Sum>j<N. G j b c h w) / real N))"
  proof -
    have "map (\<lambda>j. tab4 B C H W (G j)) [0..<N]
            = tab4 B C H W (G 0) # map (\<lambda>j. tab4 B C H W (G j)) [1..<N]"
      by (subst split) simp
    then show ?thesis
      unfolding fused_feature_map_def N_def [symmetric] loop
      by (simp only: sum.case list.case sum map4_tab4)
  qed
  have "tab4 B C H W (\<lambda>b c h w. (\<Sum>j<N. G j b c h w) / real N)
          = tab4 B (layer_c_number self) H W (\<lambda>b c h w.
              (\<Sum>j<z_number self. F j ! b ! c ! h ! w * alpha_estimate ! b ! j ! c)
                / real (z_number self))"
    by (simp add: G_def X_def A_def N_def C_def)
  with fused show ?thesis
    by (simp add: PGGAN_multi_z_forward_def)
qed

theorem fused_feature_map_mean_witness:
  "(1 :: nat) \<le> z_number toy_multi_z
   \<and> has_shape3 [[[1, 2], [3, 4 :: real]]] 1 (z_number toy_multi_z) (z_dim toy_multi_z)
   \<and> has_shape3 [[[1 / 2, 1 / 2], [1 / 2, 1 :: real]]] 1 (z_number toy_multi_z)
        (layer_c_number toy_multi_z)
   \<and> fused_feature_map toy_layer toy_multi_z [[[1, 2], [3, 4]]] [[[1 / 2, 1 / 2], [1 / 2, 1]]]
       = Inr [[[[1, 0], [0, 1]], [[5 / 2, 0], [0, 5 / 2]]]]
   \<and> PGGAN_multi_z_forward toy_layer toy_multi_z [[[[1, 2], [3, 4]]], [[[1 / 2, 1 / 2], [1 / 2, 1]]]]
       = Inr [[[[1, 0], [0, 1]], [[5 / 2, 0], [0, 5 / 2]]]]"
proof -
  let ?z = "[[[1, 2], [3, 4 :: real]]]"
  let ?a = "[[[1 / 2, 1 / 2], [1 / 2, 1 :: real]]]"
  let ?F = "\<lambda>j. [[[[?z ! 0 ! j ! 0, 0], [0, ?z ! 0 ! j ! 0]],
                  [[?z ! 0 ! j ! 1, 0], [0, ?z ! 0 ! j ! 1]]]]"
  have n: "1 \<le> z_number toy_multi_z" and zd: "0 < z_dim toy_multi_z"
    and cd: "0 < layer_c_number toy_multi_z"
    by (simp_all add: toy_multi_z_def)
  have zs: "has_shape3 ?z 1 (z_number toy_multi_z) (z_dim toy_multi_z)"
    by (simp add: toy_multi_z_def has_shape3_def has_shape2_def)
  have as: "has_shape3 ?a 1 (z_number toy_multi_z) (layer_c_number toy_multi_z)"
    by (simp add: toy_multi_z_def has_shape3_def has_shape2_def)
  have pre: "Sequential toy_layer (pre_model toy_multi_z)
               (tab4 1 (z_dim toy_multi_z) 1 1 (\<lambda>b k h w. ?z ! b ! j ! k)) = Inr (?F j)
             \<and> has_shape4 (?F j) 1 (layer_c_number toy_multi_z) 2 2"
    if "j < z_number toy_multi_z" for j
    by (simp add: toy_multi_z_def toy_layer_def tab4_def tab3_def tab2_def numeral_2_eq_2
                  has_shape4_def has_shape3_def has_shape2_def)
  have two: "{..<2::nat} = {0, 1}" by auto
  have t: "tab4 (Suc 0) 2 2 2 f = [[[[f 0 0 0 0, f 0 0 0 1], [f 0 0 1 0, f 0 0 1 1]],
                              [[f 0 1 0 0, f 0 1 0 1], [f 0 1 1 0, f 0 1 1 1]]]]"
    for f :: "nat \<Rightarrow> nat \<Rightarrow> nat \<Rightarrow> nat \<Rightarrow> real"
    by (simp add: tab4_def tab3_def tab2_def numeral_2_eq_2)
  have "fused_feature_map toy_layer toy_multi_z ?z ?a
          = Inr [[[[1, 0], [0, 1]], [[5 / 2, 0], [0, 5 / 2]]]]
        \<and> PGGAN_multi_z_forward toy_layer toy_multi_z [?z, ?a]
          = Inr [[[[1, 0], [0, 1]], [[5 / 2, 0], [0, 5 / 2]]]]"
    using fused_feature_map_mean [of toy_multi_z ?z 1 ?a toy_layer ?F 2 2, OF n zd cd zs as pre]
    by (simp add: toy_multi_z_def t two)
  then show ?thesis using n zs as by simp
qed

end
